theory Spec2Isabelle
  imports Complex_Main "HOL-Library.FSet"
begin

section \<open>Rhythm game session logic (rhythm.js)\<close>

text \<open>
  A shallow embedding of the session logic of \<^verbatim>\<open>src/rhythm.js\<close>. JavaScript numbers are
  modelled as reals (timestamps, positions, durations and the random draws); the
  comparisons and the arithmetic of the source are kept as written. Every call of
  \<^verbatim>\<open>Math.random()\<close> is a parameter: a function takes \<open>rnd :: nat \<Rightarrow> real\<close>, and
  \<open>rnd i\<close> is the result of its \<open>i\<close>-th call of \<^verbatim>\<open>Math.random()\<close>; the JavaScript
  contract is \<open>0 \<le> rnd i < 1\<close>. Every call of \<^verbatim>\<open>Date.now()\<close> inside one handler is
  the parameter \<open>now\<close>.
\<close>

subsection \<open>Strings and arrays\<close>

text \<open>\<^verbatim>\<open>s.startsWith(p)\<close>.\<close>

definition startsWith :: "string \<Rightarrow> string \<Rightarrow> bool" where
  "startsWith s p = (take (length p) s = p)"

text \<open>\<^verbatim>\<open>s.split(c)\<close> for a separator of one character: the empty string gives one empty piece.\<close>

fun split_str :: "char \<Rightarrow> string \<Rightarrow> string list" where
  "split_str c [] = [[]]"
| "split_str c (x # xs) =
     (if x = c then [] # split_str c xs
      else (case split_str c xs of
              [] \<Rightarrow> [[x]]
            | p # ps \<Rightarrow> (x # p) # ps))"

text \<open>\<^verbatim>\<open>a[i]\<close>: reading outside the array gives \<^verbatim>\<open>undefined\<close>, here \<open>None\<close>.\<close>

definition at_index :: "'a list \<Rightarrow> int \<Rightarrow> 'a option" where
  "at_index xs i = (if 0 \<le> i \<and> i < int (length xs) then Some (xs ! nat i) else None)"

text \<open>\<^verbatim>\<open>s.charAt(i)\<close>: outside the string the result is the empty string.\<close>

definition charAt :: "string \<Rightarrow> int \<Rightarrow> string" where
  "charAt s i = (if 0 \<le> i \<and> i < int (length s) then [s ! nat i] else [])"

definition normalizeTrackUri :: "string \<Rightarrow> string" where
  "normalizeTrackUri trackIdOrUri =
     (if startsWith trackIdOrUri ''spotify:track:'' then trackIdOrUri
      else ''spotify:track:'' @ trackIdOrUri)"

definition extractTrackId :: "string \<Rightarrow> string option" where
  "extractTrackId trackIdOrUri =
     (if startsWith trackIdOrUri ''spotify:track:''
      then at_index (split_str CHR '':'' trackIdOrUri) 2
      else Some trackIdOrUri)"

subsection \<open>Configuration constants\<close>

definition ANCHOR_TRACK :: string where
  "ANCHOR_TRACK = ''spotify:track:5FMyXeZ0reYloRTiCkPprT''"

definition YOUR_TRACK :: string where
  "YOUR_TRACK = ''spotify:track:0YWmeJtd7Fp1tH3978qUIH''"

definition FILLER_POOL :: "string list" where
  "FILLER_POOL =
     [''spotify:track:2FDTHlrBguDzQkp7PVj16Q'',
      ''spotify:track:21jGcNKet2qwijlDFuPiPb'',
      ''spotify:track:7qiZfU4dY1lWllzX7mPBI3'',
      ''spotify:track:0VjIjW4GlULA7vLyAoIf2Y'',
      ''spotify:track:6WrI0LAC5M1Rw2MnX2ZvEg'']"

text \<open>\<^verbatim>\<open>REQUIRED_MS_VARIANT\<close>, \<^verbatim>\<open>MIN_TRACK_RATIO_DIST\<close>, \<^verbatim>\<open>EARLY_FINISH_WINDOW\<close>.\<close>

definition baseMin :: real where "baseMin = 11 * 60 * 1000"
definition baseMax :: real where "baseMax = 14 * 60 * 1000"
definition lowBandProb :: real where "lowBandProb = 15 / 100"
definition midBandProb :: real where "midBandProb = 65 / 100"
definition earlyMin :: real where "earlyMin = 80 / 100"
definition earlyMax :: real where "earlyMax = 90 / 100"

text \<open>\<^verbatim>\<open>ORDER_VARIANCE\<close>, \<^verbatim>\<open>INTER_TRACK_GAP\<close>, \<^verbatim>\<open>NOISE_OPTIONS\<close>, \<^verbatim>\<open>SHOW_SAVE_PROMPT_PROB\<close>.\<close>

definition defaultProb :: real where "defaultProb = 75 / 100"
definition swap12 :: real where "swap12 = 13 / 100"
definition swap23 :: real where "swap23 = 12 / 100"
definition gapMin :: real where "gapMin = 1000"
definition gapMax :: real where "gapMax = 9000"
definition immediateProb :: real where "immediateProb = 15 / 100"
definition noiseEnable :: bool where "noiseEnable = True"
definition pauseProb :: real where "pauseProb = 4 / 10"
definition volDipProb :: real where "volDipProb = 4 / 10"
definition volDipSize :: "real \<times> real" where "volDipSize = (5 / 100, 10 / 100)"
definition SHOW_SAVE_PROMPT_PROB :: real where "SHOW_SAVE_PROMPT_PROB = 35 / 100"

definition N8N_TELEMETRY_URL :: string where "N8N_TELEMETRY_URL = []"
definition N8N_COMPLETED_URL :: string where "N8N_COMPLETED_URL = []"

subsection \<open>Random helpers\<close>

text \<open>\<^verbatim>\<open>Math.random() * (max - min) + min\<close>, with the draw \<open>r\<close>.\<close>

definition randomBetween :: "real \<Rightarrow> real \<Rightarrow> real \<Rightarrow> real" where
  "randomBetween lo hi r = r * (hi - lo) + lo"

text \<open>\<^verbatim>\<open>array[Math.floor(Math.random() * array.length)]\<close>, with the draw \<open>r\<close>.\<close>

definition randomChoice :: "'a list \<Rightarrow> real \<Rightarrow> 'a option" where
  "randomChoice array r = at_index array \<lfloor>r * real (length array)\<rfloor>"

text \<open>\<^verbatim>\<open>Math.round(x)\<close>: the nearest integer, halves rounded up.\<close>

definition js_round :: "real \<Rightarrow> int" where
  "js_round x = \<lfloor>x + 1 / 2\<rfloor>"

text \<open>
  \<^verbatim>\<open>generateCompletionCode\<close>: the prefix \<^verbatim>\<open>PM-\<close> and six characters, the \<open>i\<close>-th
  picked by the \<open>i\<close>-th draw.
\<close>

definition code_chars :: string where
  "code_chars = ''0123456789ABCDEFGHIJKLMNOPQRSTUVWXYZ''"

definition generateCompletionCode :: "(nat \<Rightarrow> real) \<Rightarrow> string" where
  "generateCompletionCode rnd =
     foldl (\<lambda>code i. code @ charAt code_chars \<lfloor>rnd i * real (length code_chars)\<rfloor>)
       ''PM-'' [0..<6]"

subsection \<open>The game state\<close>

text \<open>
  Errors of the source as values: a \<^verbatim>\<open>TypeError\<close> of the runtime (a method called on
  \<^verbatim>\<open>undefined\<close> or \<^verbatim>\<open>null\<close>) and an \<^verbatim>\<open>Error\<close> thrown with a message.
\<close>

datatype error = TypeError | Error string

text \<open>
  The global \<^verbatim>\<open>gameState\<close>. \<open>user\<close> holds the id of the fetched profile and \<open>playlist\<close>
  the id of the created playlist; \<open>None\<close> is \<^verbatim>\<open>null\<close>. The fields \<^verbatim>\<open>player\<close> and
  \<^verbatim>\<open>tracks\<close> hold no data the session logic reads and are left out.
\<close>

record gameState =
  user :: "string option"
  deviceId :: "string option"
  currentTrack :: nat
  trackOrder :: "string list"
  playlist :: "string option"
  startedAt :: "real option"
  sessionDuration :: real
  minTrackRatio :: real
  earlyFinishThreshold :: real
  tracksCompleted :: "nat fset"
  isPlaying :: bool
  currentPosition :: real
  currentDuration :: real
  sessionTimer :: "nat option"
  unlockTimer :: "nat option"
  completionCode :: "string option"
  noiseApplied :: bool
  showSaveButton :: bool
  countryHint :: "string option"

definition initialGameState :: gameState where
  "initialGameState =
     \<lparr>user = None, deviceId = None, currentTrack = 0, trackOrder = [], playlist = None,
      startedAt = None, sessionDuration = 0, minTrackRatio = 0, earlyFinishThreshold = 0,
      tracksCompleted = {||}, isPlaying = False, currentPosition = 0, currentDuration = 0,
      sessionTimer = None, unlockTimer = None, completionCode = None, noiseApplied = False,
      showSaveButton = False, countryHint = None\<rparr>"

subsection \<open>Randomization policy\<close>

text \<open>\<^verbatim>\<open>[xs[i], xs[j]] = [xs[j], xs[i]]\<close>: both reads happen before the writes.\<close>

definition swap_elems :: "nat \<Rightarrow> nat \<Rightarrow> 'a list \<Rightarrow> 'a list" where
  "swap_elems i j xs = xs[i := xs ! j, j := xs ! i]"

text \<open>
  \<^verbatim>\<open>generateTrackOrder\<close>. Draw 0 picks the filler, draw 1 is \<^verbatim>\<open>rand\<close>. An \<^verbatim>\<open>undefined\<close>
  filler would make \<^verbatim>\<open>order.map(normalizeTrackUri)\<close> throw before the state is written.
\<close>

definition generateTrackOrder :: "(nat \<Rightarrow> real) \<Rightarrow> gameState \<Rightarrow> error + gameState" where
  "generateTrackOrder rnd g =
     (let filler = randomChoice FILLER_POOL (rnd 0);
          order = [Some ANCHOR_TRACK, Some YOUR_TRACK, filler];
          rand = rnd 1;
          order' = (if rand > defaultProb
                    then (if rand < defaultProb + swap12
                          then swap_elems 0 1 order
                          else swap_elems 1 2 order)
                    else order)
      in case those order' of
           None \<Rightarrow> Inl TypeError
         | Some uris \<Rightarrow> Inr (g\<lparr>trackOrder := map normalizeTrackUri uris\<rparr>))"

text \<open>
  \<^verbatim>\<open>generateSessionParameters\<close>. Draws 0 to 4 are the duration, the early-finish
  fraction, the band, the ratio inside the band and the save prompt; draws 5 and 6 go to
  \<^verbatim>\<open>generateTrackOrder\<close>.
\<close>

definition generateSessionParameters :: "(nat \<Rightarrow> real) \<Rightarrow> gameState \<Rightarrow> error + gameState" where
  "generateSessionParameters rnd g =
     (let g1 = g\<lparr>sessionDuration := randomBetween baseMin baseMax (rnd 0)\<rparr>;
          g2 = g1\<lparr>earlyFinishThreshold :=
                   sessionDuration g1 * randomBetween earlyMin earlyMax (rnd 1)\<rparr>;
          rand = rnd 2;
          g3 = (if rand < lowBandProb
                then g2\<lparr>minTrackRatio := randomBetween (72 / 100) (79 / 100) (rnd 3)\<rparr>
                else if rand < lowBandProb + midBandProb
                then g2\<lparr>minTrackRatio := randomBetween (80 / 100) (94 / 100) (rnd 3)\<rparr>
                else g2\<lparr>minTrackRatio := randomBetween (95 / 100) 1 (rnd 3)\<rparr>);
          g4 = g3\<lparr>showSaveButton := (rnd 4 < SHOW_SAVE_PROMPT_PROB)\<rparr>
      in generateTrackOrder (\<lambda>i. rnd (i + 5)) g4)"

subsection \<open>The environment of the session\<close>

text \<open>
  What the session logic does to its surroundings is recorded beside the game state:
  the calls of \<^verbatim>\<open>sendTelemetry\<close>, the running \<^verbatim>\<open>setInterval\<close> timers, the pending
  \<^verbatim>\<open>setTimeout\<close> callbacks, the play requests sent to the Web API, the commands sent to
  the player, and the parts of the page the logic writes or reads. The elements of the
  page are taken to exist. An exception that leaves a handler is recorded in \<open>uncaught\<close>.
\<close>

datatype callback =
    CbPlayNextTrack
  | CbPlayCurrentTrack
  | CbNoise
  | CbResume
  | CbRestoreVolume real

datatype player_cmd = Pause | Resume | SetVolume real

text \<open>
  The payloads of \<^verbatim>\<open>sendTelemetry\<close>. \<open>PlaylistCreated\<close>: user, playlist id, country,
  order, title, public. \<open>TrackEvent\<close>: track id, event, track number, position,
  duration. \<open>SessionCompleted\<close>: user, playlist id, track URIs, order chosen, per-track
  ratios, elapsed ms, country, completion code, number of completed tracks. The user
  field carries the id that the source hashes with SHA-256.
\<close>

datatype telemetry_event =
    PlaylistCreated string string "string option" "string list" string bool
  | TrackEvent "string option" string nat "real option" "real option"
  | SessionCompleted string "string option" "string list" "string option list" "real list"
      real "string option" string nat

fun is_session_completed :: "telemetry_event \<Rightarrow> bool" where
  "is_session_completed (SessionCompleted _ _ _ _ _ _ _ _ _) = True"
| "is_session_completed _ = False"

record world =
  gs :: gameState
  telemetry :: "telemetry_event list"
  posted :: "(string \<times> telemetry_event) list"
  intervals :: "nat list"
  nextTimerId :: nat
  timeouts :: "(real \<times> callback) list"
  playCommands :: "string option list"
  playerCmds :: "player_cmd list"
  messages :: "(string \<times> string) list"
  mainButton :: "string \<times> bool"
  mainDisplay :: string
  finishDisplay :: string
  finishOnclick :: bool
  saveDisplay :: string
  completionText :: string
  completionAreaDisplay :: string
  progressPercent :: "nat \<rightharpoonup> int"
  progressShown :: bool
  uncaught :: "error list"

definition initialWorld :: world where
  "initialWorld =
     \<lparr>gs = initialGameState, telemetry = [], posted = [], intervals = [], nextTimerId = 1,
      timeouts = [], playCommands = [], playerCmds = [], messages = [],
      mainButton = (''Loading...'', False), mainDisplay = ''block'', finishDisplay = ''none'',
      finishOnclick = False, saveDisplay = ''none'', completionText = [],
      completionAreaDisplay = ''none'', progressPercent = Map.empty, progressShown = False,
      uncaught = []\<rparr>"

text \<open>\<^verbatim>\<open>showMessage\<close> (the timer that hides the message again is not modelled).\<close>

definition showMessage :: "string \<Rightarrow> string \<Rightarrow> world \<Rightarrow> world" where
  "showMessage text type w = w\<lparr>messages := messages w @ [(text, type)]\<rparr>"

definition updateButton :: "string \<Rightarrow> bool \<Rightarrow> world \<Rightarrow> world" where
  "updateButton text enabled w = w\<lparr>mainButton := (text, enabled)\<rparr>"

text \<open>\<^verbatim>\<open>setInterval\<close> returns a fresh handle; \<^verbatim>\<open>clearInterval\<close> stops the timer.\<close>

definition setInterval :: "world \<Rightarrow> nat \<times> world" where
  "setInterval w =
     (nextTimerId w, w\<lparr>intervals := intervals w @ [nextTimerId w],
                        nextTimerId := Suc (nextTimerId w)\<rparr>)"

definition clearInterval :: "nat \<Rightarrow> world \<Rightarrow> world" where
  "clearInterval i w = w\<lparr>intervals := removeAll i (intervals w)\<rparr>"

text \<open>\<^verbatim>\<open>if (timer) clearInterval(timer)\<close>: \<^verbatim>\<open>null\<close> and 0 are falsy.\<close>

definition clear_if_set :: "nat option \<Rightarrow> world \<Rightarrow> world" where
  "clear_if_set timer w =
     (case timer of
        None \<Rightarrow> w
      | Some i \<Rightarrow> if i = 0 then w else clearInterval i w)"

definition setTimeout :: "callback \<Rightarrow> real \<Rightarrow> world \<Rightarrow> world" where
  "setTimeout cb delay w = w\<lparr>timeouts := timeouts w @ [(delay, cb)]\<rparr>"

text \<open>
  \<^verbatim>\<open>sendTelemetry(data, customUrl)\<close>: the call is recorded in \<open>telemetry\<close>; a request is
  posted only when the chosen URL is not empty. A failed request is swallowed.
\<close>

definition sendTelemetry :: "telemetry_event \<Rightarrow> string option \<Rightarrow> world \<Rightarrow> world" where
  "sendTelemetry data customUrl w =
     (let w1 = w\<lparr>telemetry := telemetry w @ [data]\<rparr>;
          url = (case customUrl of
                   None \<Rightarrow> N8N_TELEMETRY_URL
                 | Some u \<Rightarrow> if u = [] then N8N_TELEMETRY_URL else u)
      in if url = [] then w1 else w1\<lparr>posted := posted w1 @ [(url, data)]\<rparr>)"

subsection \<open>Completion\<close>

text \<open>The test \<^verbatim>\<open>if (gameState.completionCode)\<close>: \<^verbatim>\<open>null\<close> and the empty string are falsy.\<close>

definition completed :: "gameState \<Rightarrow> bool" where
  "completed g = (case completionCode g of None \<Rightarrow> False | Some c \<Rightarrow> c \<noteq> [])"

definition unlockCompletion :: "real \<Rightarrow> (nat \<Rightarrow> real) \<Rightarrow> world \<Rightarrow> world" where
  "unlockCompletion now rnd w =
     (if completed (gs w) then w
      else
        let code = generateCompletionCode rnd;
            w1 = w\<lparr>gs := (gs w)\<lparr>completionCode := Some code\<rparr>\<rparr>;
            w2 = clear_if_set (sessionTimer (gs w1)) w1;
            w3 = clear_if_set (unlockTimer (gs w2)) w2;
            w4 = w3\<lparr>completionText := code, completionAreaDisplay := ''block'',
                    mainDisplay := ''none'', finishDisplay := ''none''\<rparr>;
            g = gs w4;
            elapsed = now - (case startedAt g of None \<Rightarrow> 0 | Some t \<Rightarrow> t)
        in case user g of
             None \<Rightarrow> w4\<lparr>uncaught := uncaught w4 @ [TypeError]\<rparr>
           | Some uid \<Rightarrow>
               showMessage ''Congratulations! Session completed successfully!'' ''success''
                 (sendTelemetry
                    (SessionCompleted uid (playlist g) (trackOrder g)
                       (map extractTrackId (trackOrder g))
                       (replicate (fcard (tracksCompleted g)) (minTrackRatio g))
                       elapsed (countryHint g) code (fcard (tracksCompleted g)))
                    (Some N8N_COMPLETED_URL) w4))"

definition showEarlyFinishOption :: "world \<Rightarrow> world" where
  "showEarlyFinishOption w =
     (if finishDisplay w = ''none''
      then showMessage ''All tracks completed! You can finish early if you want.'' ''success''
             (w\<lparr>finishDisplay := ''block'', finishOnclick := True\<rparr>)
      else w)"

text \<open>\<^verbatim>\<open>Date.now() - (gameState.startedAt || Date.now())\<close>: \<^verbatim>\<open>null\<close> and 0 are falsy.\<close>

definition elapsed_ms :: "real \<Rightarrow> gameState \<Rightarrow> real" where
  "elapsed_ms now g =
     now - (case startedAt g of None \<Rightarrow> now | Some t \<Rightarrow> if t = 0 then now else t)"

definition allTracksCompleted :: "gameState \<Rightarrow> bool" where
  "allTracksCompleted g = (fcard (tracksCompleted g) = length (trackOrder g))"

definition maybeUnlockCompletion :: "real \<Rightarrow> (nat \<Rightarrow> real) \<Rightarrow> world \<Rightarrow> world" where
  "maybeUnlockCompletion now rnd w =
     (if completed (gs w) then w
      else if elapsed_ms now (gs w) \<ge> sessionDuration (gs w) \<and> allTracksCompleted (gs w)
      then unlockCompletion now rnd w
      else if elapsed_ms now (gs w) \<ge> earlyFinishThreshold (gs w) \<and> allTracksCompleted (gs w)
      then showEarlyFinishOption w
      else w)"

subsection \<open>Playback ticks\<close>

text \<open>
  The state the player reports: position, duration, paused. The report's track window
  only feeds the title and artist labels of the page and is left out.
\<close>

record tick =
  position :: real
  duration :: real
  paused :: bool

definition updateTrackProgress :: "world \<Rightarrow> world" where
  "updateTrackProgress w =
     (let g = gs w in
      if currentTrack g > 0 \<and> currentTrack g \<le> 3
      then
        let progressRatio = (if currentDuration g > 0
                             then currentPosition g / currentDuration g else 0);
            percentage = js_round (progressRatio * 100)
        in w\<lparr>progressPercent := (progressPercent w)(currentTrack g \<mapsto> percentage)\<rparr>
      else w)"

text \<open>
  \<^verbatim>\<open>handlePlayerStateChanged(state)\<close>; \<open>None\<close> is a \<^verbatim>\<open>null\<close> state. The ratio is
  computed only under the guard \<^verbatim>\<open>duration > 0\<close>.
\<close>

definition handlePlayerStateChanged ::
  "real \<Rightarrow> (nat \<Rightarrow> real) \<Rightarrow> tick option \<Rightarrow> world \<Rightarrow> world" where
  "handlePlayerStateChanged now rnd state w =
     (case state of
        None \<Rightarrow> w
      | Some t \<Rightarrow>
          let w1 = w\<lparr>gs := (gs w)\<lparr>currentPosition := position t,
                                   currentDuration := duration t,
                                   isPlaying := \<not> paused t\<rparr>\<rparr>;
              w2 = updateTrackProgress w1;
              w3 = (if currentTrack (gs w2) > 0 \<and> duration t > 0
                    then
                      let progressRatio = position t / duration t;
                          w2a = (if progressRatio \<ge> minTrackRatio (gs w2) \<and>
                                    currentTrack (gs w2) |\<notin>| tracksCompleted (gs w2)
                                 then w2\<lparr>gs := (gs w2)\<lparr>tracksCompleted :=
                                        finsert (currentTrack (gs w2))
                                          (tracksCompleted (gs w2))\<rparr>\<rparr>
                                 else w2)
                      in if position t \<ge> duration t - 1000 \<and> isPlaying (gs w2a)
                         then setTimeout CbPlayNextTrack 100 w2a
                         else w2a
                    else w2)
          in maybeUnlockCompletion now rnd w3)"

subsection \<open>Track sequencing\<close>

definition scheduleNoiseInteraction :: "real \<Rightarrow> world \<Rightarrow> world" where
  "scheduleNoiseInteraction r w = setTimeout CbNoise (randomBetween 30000 120000 r) w"

text \<open>
  The callback scheduled by \<^verbatim>\<open>scheduleNoiseInteraction\<close>; \<open>vol\<close> is what
  \<^verbatim>\<open>getVolume()\<close> returns.
\<close>

definition noiseCallback :: "(nat \<Rightarrow> real) \<Rightarrow> real \<Rightarrow> world \<Rightarrow> world" where
  "noiseCallback rnd vol w =
     (if \<not> isPlaying (gs w) \<or> noiseApplied (gs w) then w
      else
        let w1 = w\<lparr>gs := (gs w)\<lparr>noiseApplied := True\<rparr>\<rparr>
        in if rnd 0 < pauseProb
           then setTimeout CbResume (randomBetween 2000 5000 (rnd 1))
                  (w1\<lparr>playerCmds := playerCmds w1 @ [Pause]\<rparr>)
           else if rnd 1 < volDipProb
           then
             let dipAmount = randomBetween (fst volDipSize) (snd volDipSize) (rnd 2)
             in setTimeout (CbRestoreVolume vol) (randomBetween 3000 8000 (rnd 3))
                  (w1\<lparr>playerCmds := playerCmds w1 @ [SetVolume (max 0 (vol - dipAmount))]\<rparr>)
           else w1)"

text \<open>
  \<^verbatim>\<open>playCurrentTrack\<close>; \<open>res\<close> is the outcome of the play request. Every failure
  inside the \<^verbatim>\<open>try\<close> is caught and shown as a message; nothing is thrown.
\<close>

definition playCurrentTrack :: "(nat \<Rightarrow> real) \<Rightarrow> error + unit \<Rightarrow> world \<Rightarrow> world" where
  "playCurrentTrack rnd res w =
     (if currentTrack (gs w) > length (trackOrder (gs w)) then w
      else
        let trackUri = at_index (trackOrder (gs w)) (int (currentTrack (gs w)) - 1);
            w1 = w\<lparr>playCommands := playCommands w @ [trackUri]\<rparr>
        in case res of
             Inl e \<Rightarrow> showMessage ''Failed to play track'' ''error'' w1
           | Inr _ \<Rightarrow>
               (case trackUri of
                  None \<Rightarrow> showMessage ''Failed to play track'' ''error'' w1
                | Some uri \<Rightarrow>
                    let w2 = sendTelemetry
                               (TrackEvent (extractTrackId uri) ''started''
                                  (currentTrack (gs w1)) None None) None w1;
                        w3 = (if noiseEnable \<and> \<not> noiseApplied (gs w2) \<and> rnd 0 < 3 / 10
                              then scheduleNoiseInteraction (rnd 1) w2 else w2)
                    in if uri = YOUR_TRACK \<and> showSaveButton (gs w3)
                       then w3\<lparr>saveDisplay := ''block''\<rparr> else w3))"

text \<open>
  \<^verbatim>\<open>playNextTrack\<close>. With \<^verbatim>\<open>currentTrack = 0\<close> the read of \<^verbatim>\<open>trackOrder[-1]\<close> is
  \<^verbatim>\<open>undefined\<close> and \<^verbatim>\<open>extractTrackId\<close> throws before anything is changed.
\<close>

definition playNextTrack :: "(nat \<Rightarrow> real) \<Rightarrow> world \<Rightarrow> world" where
  "playNextTrack rnd w =
     (if currentTrack (gs w) \<ge> length (trackOrder (gs w)) then w
      else
        case at_index (trackOrder (gs w)) (int (currentTrack (gs w)) - 1) of
          None \<Rightarrow> w\<lparr>uncaught := uncaught w @ [TypeError]\<rparr>
        | Some currentTrackUri \<Rightarrow>
            let w1 = sendTelemetry
                       (TrackEvent (extractTrackId currentTrackUri) ''ended''
                          (currentTrack (gs w)) (Some (currentPosition (gs w)))
                          (Some (currentDuration (gs w)))) None w;
                w2 = w1\<lparr>gs := (gs w1)\<lparr>currentTrack := currentTrack (gs w1) + 1\<rparr>\<rparr>
            in if currentTrack (gs w2) \<le> length (trackOrder (gs w2))
               then
                 let gapMs = (if rnd 0 < immediateProb then 0
                              else randomBetween gapMin gapMax (rnd 1))
                 in setTimeout CbPlayCurrentTrack gapMs w2
               else w2)"

subsection \<open>Starting a session\<close>

text \<open>
  The outcomes of the Web API requests made while a session starts: creating the
  playlist (its id), adding the tracks, listing the devices (their ids), transferring
  playback, and the play request.
\<close>

record api_results =
  createPlaylistRes :: "error + string"
  addTracksRes :: "error + unit"
  devicesRes :: "error + string list"
  transferRes :: "error + unit"
  playRes :: "error + unit"

fun err_message :: "error \<Rightarrow> string" where
  "err_message TypeError = ''TypeError''"
| "err_message (Error m) = m"

text \<open>
  \<^verbatim>\<open>createPlaylist\<close>. The result is the world the call leaves and the error it throws,
  if any. The random title and visibility are arguments: no other part of the logic
  reads them.
\<close>

definition createPlaylist ::
  "string \<Rightarrow> bool \<Rightarrow> api_results \<Rightarrow> world \<Rightarrow> world \<times> error option" where
  "createPlaylist playlistName isPublic api w =
     (case user (gs w) of
        None \<Rightarrow> (w, Some TypeError)
      | Some uid \<Rightarrow>
          (case createPlaylistRes api of
             Inl e \<Rightarrow> (w, Some e)
           | Inr pid \<Rightarrow>
               let w1 = w\<lparr>gs := (gs w)\<lparr>playlist := Some pid\<rparr>\<rparr>;
                   trackUris = trackOrder (gs w1)
               in case addTracksRes api of
                    Inl e \<Rightarrow> (w1, Some e)
                  | Inr _ \<Rightarrow>
                      (sendTelemetry
                         (PlaylistCreated uid pid (countryHint (gs w1)) trackUris
                            playlistName isPublic) None w1,
                       None)))"

definition transfer_failed :: error where
  "transfer_failed = Error ''Failed to connect to player. Make sure Spotify is open.''"

definition transferPlayback :: "api_results \<Rightarrow> world \<Rightarrow> world \<times> error option" where
  "transferPlayback api w =
     (case devicesRes api of
        Inl e \<Rightarrow> (w, Some transfer_failed)
      | Inr devices \<Rightarrow>
          if \<not> (\<exists>d \<in> set devices. Some d = deviceId (gs w))
          then (w, Some transfer_failed)
          else (case transferRes api of
                  Inl e \<Rightarrow> (w, Some transfer_failed)
                | Inr _ \<Rightarrow> (w, None)))"

definition start_failed :: "error \<Rightarrow> world \<Rightarrow> world" where
  "start_failed e w =
     updateButton ''Start Session'' True
       (showMessage (''Failed to start: '' @ err_message e) ''error'' w)"

text \<open>
  \<^verbatim>\<open>startSession\<close>. \<open>now\<close> is the time read for \<^verbatim>\<open>startedAt\<close>; \<open>rnd\<close> feeds
  \<^verbatim>\<open>playCurrentTrack\<close>.
\<close>

definition startSession ::
  "real \<Rightarrow> (nat \<Rightarrow> real) \<Rightarrow> string \<Rightarrow> bool \<Rightarrow> api_results \<Rightarrow> world \<Rightarrow> world" where
  "startSession now rnd playlistName isPublic api w =
     (let w0 = showMessage ''Creating playlist and starting playback...'' ''info''
                 (updateButton ''Starting...'' False w)
      in case createPlaylist playlistName isPublic api w0 of
           (w1, Some e) \<Rightarrow> start_failed e w1
         | (w1, None) \<Rightarrow>
             (case transferPlayback api w1 of
                (w2, Some e) \<Rightarrow> start_failed e w2
              | (w2, None) \<Rightarrow>
                  let w3 = w2\<lparr>gs := (gs w2)\<lparr>currentTrack := 1, startedAt := Some now\<rparr>\<rparr>;
                      w4 = playCurrentTrack rnd (playRes api) w3;
                      (i, w5) = setInterval w4;
                      w6 = w5\<lparr>gs := (gs w5)\<lparr>sessionTimer := Some i\<rparr>\<rparr>;
                      (j, w7) = setInterval w6;
                      w8 = w7\<lparr>gs := (gs w7)\<lparr>unlockTimer := Some j\<rparr>\<rparr>;
                      w9 = w8\<lparr>progressShown := True\<rparr>
                  in showMessage ''Session started! Enjoy the music'' ''success''
                       (updateButton ''Playing...'' False w9)))"

subsection \<open>Runs\<close>

text \<open>
  The handlers run one at a time on one thread. A run is a list of handler executions,
  each with the time it reads, its random draws and its event: a report of the player,
  the completion-check timer, a click on the finish button (which runs the handler
  \<^verbatim>\<open>showEarlyFinishOption\<close> installed, if any), the two track timeouts, the noise timeout,
  and a click on the main button (which starts a session when the button reads
  \<^verbatim>\<open>Start Session\<close>). The events may come in any order.
\<close>

datatype event =
    PlayerStateChanged "tick option"
  | UnlockTimerFired
  | FinishClicked
  | NextTrackTimeout
  | CurrentTrackTimeout "error + unit"
  | NoiseTimeout real
  | StartClicked string bool api_results

fun step :: "real \<Rightarrow> (nat \<Rightarrow> real) \<Rightarrow> event \<Rightarrow> world \<Rightarrow> world" where
  "step now rnd (PlayerStateChanged st) w = handlePlayerStateChanged now rnd st w"
| "step now rnd UnlockTimerFired w = maybeUnlockCompletion now rnd w"
| "step now rnd FinishClicked w = (if finishOnclick w then unlockCompletion now rnd w else w)"
| "step now rnd NextTrackTimeout w = playNextTrack rnd w"
| "step now rnd (CurrentTrackTimeout res) w = playCurrentTrack rnd res w"
| "step now rnd (NoiseTimeout vol) w = noiseCallback rnd vol w"
| "step now rnd (StartClicked name pub api) w =
     (if fst (mainButton w) = ''Start Session'' then startSession now rnd name pub api w else w)"

fun run :: "(real \<times> (nat \<Rightarrow> real) \<times> event) list \<Rightarrow> world \<Rightarrow> world" where
  "run [] w = w"
| "run ((now, rnd, e) # es) w = run es (step now rnd e w)"

text \<open>
  A report of the player reaches the ratio for track \<open>k\<close> when it is handled while
  \<open>k\<close> is the current track, has a positive duration, and its position is at least
  \<open>minTrackRatio\<close> of its duration.
\<close>

fun tick_reaches :: "nat \<Rightarrow> event \<Rightarrow> world \<Rightarrow> bool" where
  "tick_reaches k (PlayerStateChanged (Some t)) w =
     (currentTrack (gs w) = k \<and> duration t > 0 \<and>
      position t / duration t \<ge> minTrackRatio (gs w))"
| "tick_reaches k _ w = False"

fun reaches :: "nat \<Rightarrow> (real \<times> (nat \<Rightarrow> real) \<times> event) list \<Rightarrow> world \<Rightarrow> bool" where
  "reaches k [] w = False"
| "reaches k ((now, rnd, e) # es) w =
     (tick_reaches k e w \<or> reaches k es (step now rnd e w))"

text \<open>
  The invariant of a session in which track \<open>k\<close> has not reached the ratio: the session
  is not completed, the finish button has no handler, \<open>k\<close> is not among the completed
  tracks, the completed tracks and the current track are positions of the track order.
\<close>

definition session_inv :: "nat \<Rightarrow> world \<Rightarrow> bool" where
  "session_inv k w =
     (completionCode (gs w) = None \<and> \<not> finishOnclick w \<and>
      k |\<notin>| tracksCompleted (gs w) \<and>
      fBall (tracksCompleted (gs w)) (\<lambda>j. 1 \<le> j \<and> j \<le> length (trackOrder (gs w))) \<and>
      currentTrack (gs w) \<le> length (trackOrder (gs w)) \<and>
      1 \<le> k \<and> k \<le> length (trackOrder (gs w)))"

text \<open>A world for examples: initialised, with a user, a device and session parameters.\<close>

definition readyWorld :: world where
  "readyWorld =
     initialWorld\<lparr>gs := initialGameState\<lparr>user := Some ''u1'', deviceId := Some ''dev1'',
        trackOrder := [ANCHOR_TRACK, YOUR_TRACK, ''spotify:track:2FDTHlrBguDzQkp7PVj16Q''],
        sessionDuration := 700000, minTrackRatio := 8 / 10,
        earlyFinishThreshold := 600000\<rparr>,
      mainButton := (''Start Session'', True)\<rparr>"

text \<open>The same world with a session running: first track, both timers armed.\<close>

definition runningWorld :: world where
  "runningWorld =
     readyWorld\<lparr>gs := (gs readyWorld)\<lparr>playlist := Some ''pl1'', currentTrack := 1,
        startedAt := Some 1000, sessionTimer := Some 1, unlockTimer := Some 2\<rparr>,
      intervals := [1, 2], nextTimerId := 3, mainButton := (''Playing...'', False),
      progressShown := True\<rparr>"

section \<open>Properties of the string helpers\<close>

lemma startsWith_append: "startsWith (p @ s) p"
  by (simp add: startsWith_def)

lemma split_str_no_sep: "c \<notin> set t \<Longrightarrow> split_str c t = [t]"
  by (induction t) auto

lemma split_str_append_sep:
  "c \<notin> set p \<Longrightarrow> split_str c (p @ c # s) = p # split_str c s"
  by (induction p) auto

lemma split_prefixed:
  assumes "CHR '':'' \<notin> set t"
  shows "split_str CHR '':'' (''spotify:track:'' @ t) = [''spotify'', ''track'', t]"
proof -
  have "split_str CHR '':'' (''spotify'' @ CHR '':'' # (''track'' @ CHR '':'' # t))
        = ''spotify'' # split_str CHR '':'' (''track'' @ CHR '':'' # t)"
    by (rule split_str_append_sep) simp
  also have "split_str CHR '':'' (''track'' @ CHR '':'' # t) = ''track'' # split_str CHR '':'' t"
    by (rule split_str_append_sep) simp
  also have "split_str CHR '':'' t = [t]"
    using assms by (rule split_str_no_sep)
  finally show ?thesis by simp
qed

text \<open>
  C10. Normalising a track reference twice is the same as normalising it once, and a bare
  track id (no \<^verbatim>\<open>spotify:track:\<close> prefix, no colon) is recovered by \<^verbatim>\<open>extractTrackId\<close>
  from its normalised URI.
\<close>

theorem normalizeTrackUri_idempotent_roundtrip:
  "normalizeTrackUri (normalizeTrackUri s) = normalizeTrackUri s \<and>
   (\<not> startsWith t ''spotify:track:'' \<and> CHR '':'' \<notin> set t \<longrightarrow>
      extractTrackId (normalizeTrackUri t) = Some t)"
proof
  show "normalizeTrackUri (normalizeTrackUri s) = normalizeTrackUri s"
    using startsWith_append [of "''spotify:track:''" s]
    by (simp add: normalizeTrackUri_def)
next
  show "\<not> startsWith t ''spotify:track:'' \<and> CHR '':'' \<notin> set t \<longrightarrow>
      extractTrackId (normalizeTrackUri t) = Some t"
  proof
    assume h: "\<not> startsWith t ''spotify:track:'' \<and> CHR '':'' \<notin> set t"
    then have n: "normalizeTrackUri t = ''spotify:track:'' @ t"
      by (simp add: normalizeTrackUri_def)
    have "extractTrackId (''spotify:track:'' @ t)
          = at_index (split_str CHR '':'' (''spotify:track:'' @ t)) 2"
      using startsWith_append [of "''spotify:track:''" t]
      by (simp only: extractTrackId_def if_True)
    also have "\<dots> = at_index [''spotify'', ''track'', t] 2"
      using h split_prefixed [of t] by presburger
    also have "\<dots> = Some t"
      by (simp add: at_index_def)
    finally show "extractTrackId (normalizeTrackUri t) = Some t"
      using n by simp
  qed
qed

theorem normalizeTrackUri_idempotent_roundtrip_witness:
  "normalizeTrackUri (normalizeTrackUri ''abc'') = normalizeTrackUri ''abc'' \<and>
   \<not> startsWith ''abc'' ''spotify:track:'' \<and> CHR '':'' \<notin> set ''abc'' \<and>
   extractTrackId (normalizeTrackUri ''abc'') = Some ''abc''"
  using normalizeTrackUri_idempotent_roundtrip [of "''abc''" "''abc''"]
  by (simp add: startsWith_def)

section \<open>Properties of the randomization policy\<close>

lemma randomChoice_in_range:
  assumes "0 \<le> r" "r < 1" "xs \<noteq> []"
  shows "\<exists>i < length xs. randomChoice xs r = Some (xs ! i)"
proof -
  have pos: "0 < real (length xs)" using assms(3) by simp
  have "r * real (length xs) < 1 * real (length xs)"
    using assms(2) pos by (rule mult_strict_right_mono)
  then have up: "\<lfloor>r * real (length xs)\<rfloor> < int (length xs)"
    by (simp add: floor_less_iff)
  have lo: "0 \<le> \<lfloor>r * real (length xs)\<rfloor>"
    using assms(1) by simp
  from lo up have "nat \<lfloor>r * real (length xs)\<rfloor> < length xs" by linarith
  moreover from lo up have "randomChoice xs r = Some (xs ! nat \<lfloor>r * real (length xs)\<rfloor>)"
    by (simp add: randomChoice_def at_index_def)
  ultimately show ?thesis by blast
qed

lemma normalize_pool: "f \<in> set FILLER_POOL \<Longrightarrow> normalizeTrackUri f = f"
  by (auto simp: FILLER_POOL_def normalizeTrackUri_def startsWith_def)

lemma normalize_anchor: "normalizeTrackUri ANCHOR_TRACK = ANCHOR_TRACK"
  by (simp add: ANCHOR_TRACK_def normalizeTrackUri_def startsWith_def)

lemma normalize_your: "normalizeTrackUri YOUR_TRACK = YOUR_TRACK"
  by (simp add: YOUR_TRACK_def normalizeTrackUri_def startsWith_def)

lemma filler_choice:
  assumes "0 \<le> r" "r < 1"
  shows "\<exists>f \<in> set FILLER_POOL. randomChoice FILLER_POOL r = Some f"
proof -
  have "FILLER_POOL \<noteq> []" by (simp add: FILLER_POOL_def)
  from randomChoice_in_range [OF assms this] show ?thesis
    by (metis nth_mem)
qed

lemma generateTrackOrder_cases:
  assumes "randomChoice FILLER_POOL (rnd 0) = Some f" "f \<in> set FILLER_POOL"
  shows "generateTrackOrder rnd g =
           Inr (g\<lparr>trackOrder :=
                  (if rnd 1 \<le> defaultProb then [ANCHOR_TRACK, YOUR_TRACK, f]
                   else if rnd 1 < defaultProb + swap12 then [YOUR_TRACK, ANCHOR_TRACK, f]
                   else [ANCHOR_TRACK, f, YOUR_TRACK])\<rparr>)"
  using assms
  by (simp add: generateTrackOrder_def Let_def swap_elems_def normalize_pool
                normalize_anchor normalize_your not_le)

lemma generateTrackOrder_length:
  assumes "0 \<le> rnd 0" "rnd 0 < 1"
  shows "\<exists>g'. generateTrackOrder rnd g = Inr g' \<and> length (trackOrder g') = 3 \<and>
               sessionDuration g' = sessionDuration g \<and>
               earlyFinishThreshold g' = earlyFinishThreshold g \<and>
               minTrackRatio g' = minTrackRatio g"
proof -
  from filler_choice [OF assms] obtain f
    where "f \<in> set FILLER_POOL" "randomChoice FILLER_POOL (rnd 0) = Some f" by blast
  then show ?thesis
    by (simp add: generateTrackOrder_cases)
qed

lemma randomBetween_bounds:
  assumes "0 \<le> r" "r < 1" "lo \<le> hi"
  shows "lo \<le> randomBetween lo hi r \<and> randomBetween lo hi r \<le> hi"
proof -
  have a: "0 \<le> r * (hi - lo)" using assms by simp
  have "r * (hi - lo) \<le> 1 * (hi - lo)"
    using assms by (intro mult_right_mono) simp_all
  with a show ?thesis by (simp add: randomBetween_def)
qed

text \<open>
  C7. Whatever the random draws (each in \<open>[0, 1)\<close>), parameter generation succeeds and
  the generated parameters satisfy \<open>0 < earlyFinishThreshold \<le> sessionDuration\<close>,
  \<open>0 < minTrackRatio \<le> 1\<close> and the track order has exactly three entries.
\<close>

theorem generateSessionParameters_invariant:
  assumes "\<forall>i. 0 \<le> rnd i \<and> rnd i < 1"
  shows "\<exists>g'. generateSessionParameters rnd g = Inr g' \<and>
           0 < earlyFinishThreshold g' \<and> earlyFinishThreshold g' \<le> sessionDuration g' \<and>
           0 < minTrackRatio g' \<and> minTrackRatio g' \<le> 1 \<and>
           length (trackOrder g') = 3"
proof -
  define d where "d = randomBetween baseMin baseMax (rnd 0)"
  define e where "e = randomBetween earlyMin earlyMax (rnd 1)"
  define m where "m = (if rnd 2 < lowBandProb then randomBetween (72 / 100) (79 / 100) (rnd 3)
      else if rnd 2 < lowBandProb + midBandProb then randomBetween (80 / 100) (94 / 100) (rnd 3)
      else randomBetween (95 / 100) 1 (rnd 3))"
  define g4 where "g4 = g\<lparr>sessionDuration := d, earlyFinishThreshold := d * e,
      minTrackRatio := m, showSaveButton := (rnd 4 < SHOW_SAVE_PROMPT_PROB)\<rparr>"
  have r: "\<And>i. 0 \<le> rnd i" "\<And>i. rnd i < 1" using assms by simp_all
  have eq: "generateSessionParameters rnd g = generateTrackOrder (\<lambda>i. rnd (i + 5)) g4"
    by (simp add: generateSessionParameters_def Let_def g4_def d_def e_def m_def)
  have db: "baseMin \<le> d" unfolding d_def
    using randomBetween_bounds [OF r(1) r(2), of baseMin baseMax 0]
    by (simp add: baseMin_def baseMax_def)
  then have d0: "0 < d" by (simp add: baseMin_def)
  have eb: "earlyMin \<le> e \<and> e \<le> earlyMax" unfolding e_def
    using randomBetween_bounds [OF r(1) r(2), of earlyMin earlyMax 1]
    by (simp add: earlyMin_def earlyMax_def)
  then have e0: "0 < e" and e1: "e \<le> 1" by (simp_all add: earlyMin_def earlyMax_def)
  have de0: "0 < d * e" using d0 e0 by simp
  have de1: "d * e \<le> d" using d0 e1 by (simp add: mult_le_cancel_left1)
  have mb: "72 / 100 \<le> m \<and> m \<le> 1"
    unfolding m_def
    using randomBetween_bounds [OF r(1) r(2), of "72 / 100" "79 / 100" 3]
          randomBetween_bounds [OF r(1) r(2), of "80 / 100" "94 / 100" 3]
          randomBetween_bounds [OF r(1) r(2), of "95 / 100" 1 3]
    by (simp split: if_splits)
  from generateTrackOrder_length [of "\<lambda>i. rnd (i + 5)" g4] r
  obtain g' where g': "generateTrackOrder (\<lambda>i. rnd (i + 5)) g4 = Inr g'"
      "length (trackOrder g') = 3" "sessionDuration g' = sessionDuration g4"
      "earlyFinishThreshold g' = earlyFinishThreshold g4" "minTrackRatio g' = minTrackRatio g4"
    by auto
  have "sessionDuration g4 = d" "earlyFinishThreshold g4 = d * e" "minTrackRatio g4 = m"
    by (simp_all add: g4_def)
  with g' eq de0 de1 mb show ?thesis by simp
qed

theorem generateSessionParameters_invariant_witness:
  "(\<forall>i. 0 \<le> (\<lambda>_. 0 :: real) i \<and> (\<lambda>_. 0 :: real) i < 1) \<and>
   (\<exists>g'. generateSessionParameters (\<lambda>_. 0) initialGameState = Inr g' \<and>
           0 < earlyFinishThreshold g' \<and> earlyFinishThreshold g' \<le> sessionDuration g' \<and>
           0 < minTrackRatio g' \<and> minTrackRatio g' \<le> 1 \<and>
           length (trackOrder g') = 3)"
  using generateSessionParameters_invariant [of "\<lambda>_. 0" initialGameState]
  by simp

text \<open>
  C8 as the specification states it fails at the boundary \<open>rand = defaultProb\<close>: the
  source compares with \<^verbatim>\<open>rand > defaultProb\<close>, so a draw of exactly 0.75 lies in
  \<open>[defaultProb, defaultProb + swap12)\<close> and yet keeps the base order.
\<close>

theorem generateTrackOrder_boundary_keeps_base:
  "defaultProb \<le> 3 / 4 \<and> 3 / 4 < defaultProb + swap12 \<and>
   generateTrackOrder (\<lambda>i. if i = 1 then 3 / 4 else 0) initialGameState =
     Inr (initialGameState\<lparr>trackOrder :=
        [ANCHOR_TRACK, YOUR_TRACK, ''spotify:track:2FDTHlrBguDzQkp7PVj16Q'']\<rparr>) \<and>
   generateTrackOrder (\<lambda>i. if i = 1 then 3 / 4 else 0) initialGameState \<noteq>
     Inr (initialGameState\<lparr>trackOrder :=
        [YOUR_TRACK, ANCHOR_TRACK, ''spotify:track:2FDTHlrBguDzQkp7PVj16Q'']\<rparr>)"
proof -
  have c: "randomChoice FILLER_POOL 0 = Some ''spotify:track:2FDTHlrBguDzQkp7PVj16Q''"
    by (simp add: randomChoice_def at_index_def FILLER_POOL_def)
  have m: "''spotify:track:2FDTHlrBguDzQkp7PVj16Q'' \<in> set FILLER_POOL"
    by (simp add: FILLER_POOL_def)
  have "generateTrackOrder (\<lambda>i. if i = 1 then 3 / 4 else 0) initialGameState =
     Inr (initialGameState\<lparr>trackOrder :=
        [ANCHOR_TRACK, YOUR_TRACK, ''spotify:track:2FDTHlrBguDzQkp7PVj16Q'']\<rparr>)"
    using c m
    by (simp add: generateTrackOrder_cases [where f = "''spotify:track:2FDTHlrBguDzQkp7PVj16Q''"]
          defaultProb_def)
  moreover have "initialGameState\<lparr>trackOrder :=
        [ANCHOR_TRACK, YOUR_TRACK, ''spotify:track:2FDTHlrBguDzQkp7PVj16Q'']\<rparr> \<noteq>
     initialGameState\<lparr>trackOrder :=
        [YOUR_TRACK, ANCHOR_TRACK, ''spotify:track:2FDTHlrBguDzQkp7PVj16Q'']\<rparr>"
  proof
    assume "initialGameState\<lparr>trackOrder :=
        [ANCHOR_TRACK, YOUR_TRACK, ''spotify:track:2FDTHlrBguDzQkp7PVj16Q'']\<rparr> =
     initialGameState\<lparr>trackOrder :=
        [YOUR_TRACK, ANCHOR_TRACK, ''spotify:track:2FDTHlrBguDzQkp7PVj16Q'']\<rparr>"
    then have "trackOrder (initialGameState\<lparr>trackOrder :=
        [ANCHOR_TRACK, YOUR_TRACK, ''spotify:track:2FDTHlrBguDzQkp7PVj16Q'']\<rparr>) =
     trackOrder (initialGameState\<lparr>trackOrder :=
        [YOUR_TRACK, ANCHOR_TRACK, ''spotify:track:2FDTHlrBguDzQkp7PVj16Q'']\<rparr>)"
      by (rule arg_cong)
    then show False by (simp add: ANCHOR_TRACK_def YOUR_TRACK_def)
  qed
  ultimately show ?thesis
    by (simp add: defaultProb_def swap12_def)
qed

text \<open>
  C8, amended. One draw \<open>rand\<close> decides the order, starting from the base order anchor,
  primary, filler: for \<open>rand \<le> defaultProb\<close> the base order is kept; for
  \<open>defaultProb < rand < defaultProb + swap12\<close> positions 0 and 1 are swapped; for
  \<open>rand \<ge> defaultProb + swap12\<close> positions 1 and 2 are swapped. The filler is chosen from
  the pool by a separate draw.
\<close>

theorem generateTrackOrder_swap_bands:
  assumes "0 \<le> rnd 0" "rnd 0 < 1"
  shows "\<exists>filler \<in> set FILLER_POOL.
           randomChoice FILLER_POOL (rnd 0) = Some filler \<and>
           (rnd 1 \<le> defaultProb \<longrightarrow>
              generateTrackOrder rnd g =
                Inr (g\<lparr>trackOrder := [ANCHOR_TRACK, YOUR_TRACK, filler]\<rparr>)) \<and>
           (defaultProb < rnd 1 \<and> rnd 1 < defaultProb + swap12 \<longrightarrow>
              generateTrackOrder rnd g =
                Inr (g\<lparr>trackOrder := [YOUR_TRACK, ANCHOR_TRACK, filler]\<rparr>)) \<and>
           (defaultProb + swap12 \<le> rnd 1 \<longrightarrow>
              generateTrackOrder rnd g =
                Inr (g\<lparr>trackOrder := [ANCHOR_TRACK, filler, YOUR_TRACK]\<rparr>))"
proof -
  from filler_choice [OF assms] obtain f
    where f: "f \<in> set FILLER_POOL" "randomChoice FILLER_POOL (rnd 0) = Some f" by blast
  have "0 < swap12" by (simp add: swap12_def)
  then show ?thesis
    using f generateTrackOrder_cases [where rnd = rnd and f = f and g = g]
    by (intro bexI [of _ f]) auto
qed

theorem generateTrackOrder_swap_bands_witness:
  "0 \<le> (\<lambda>i. if i = 1 then 4 / 5 else 0 :: real) 0 \<and>
   (\<lambda>i. if i = 1 then 4 / 5 else 0 :: real) 0 < 1 \<and>
   defaultProb < (\<lambda>i. if i = 1 then 4 / 5 else 0 :: real) 1 \<and>
   (\<lambda>i. if i = 1 then 4 / 5 else 0 :: real) 1 < defaultProb + swap12 \<and>
   (\<exists>filler \<in> set FILLER_POOL.
      generateTrackOrder (\<lambda>i. if i = 1 then 4 / 5 else 0) initialGameState =
        Inr (initialGameState\<lparr>trackOrder := [YOUR_TRACK, ANCHOR_TRACK, filler]\<rparr>))"
  using generateTrackOrder_swap_bands [of "\<lambda>i. if i = 1 then 4 / 5 else 0" initialGameState]
  by (auto simp: defaultProb_def swap12_def)

section \<open>Frame lemmas for the basic effects\<close>

lemma showMessage_frame [simp]:
  "gs (showMessage t ty w) = gs w"
  "telemetry (showMessage t ty w) = telemetry w"
  "intervals (showMessage t ty w) = intervals w"
  "timeouts (showMessage t ty w) = timeouts w"
  "playCommands (showMessage t ty w) = playCommands w"
  "finishOnclick (showMessage t ty w) = finishOnclick w"
  "finishDisplay (showMessage t ty w) = finishDisplay w"
  "mainButton (showMessage t ty w) = mainButton w"
  "uncaught (showMessage t ty w) = uncaught w"
  "progressPercent (showMessage t ty w) = progressPercent w"
  "messages (showMessage t ty w) = messages w @ [(t, ty)]"
  by (simp_all add: showMessage_def)

lemma updateButton_frame [simp]:
  "gs (updateButton t b w) = gs w"
  "telemetry (updateButton t b w) = telemetry w"
  "intervals (updateButton t b w) = intervals w"
  "timeouts (updateButton t b w) = timeouts w"
  "playCommands (updateButton t b w) = playCommands w"
  "finishOnclick (updateButton t b w) = finishOnclick w"
  "finishDisplay (updateButton t b w) = finishDisplay w"
  "mainButton (updateButton t b w) = (t, b)"
  "uncaught (updateButton t b w) = uncaught w"
  "messages (updateButton t b w) = messages w"
  by (simp_all add: updateButton_def)

lemma setTimeout_frame [simp]:
  "gs (setTimeout cb d w) = gs w"
  "telemetry (setTimeout cb d w) = telemetry w"
  "intervals (setTimeout cb d w) = intervals w"
  "timeouts (setTimeout cb d w) = timeouts w @ [(d, cb)]"
  "playCommands (setTimeout cb d w) = playCommands w"
  "finishOnclick (setTimeout cb d w) = finishOnclick w"
  "finishDisplay (setTimeout cb d w) = finishDisplay w"
  "mainButton (setTimeout cb d w) = mainButton w"
  "uncaught (setTimeout cb d w) = uncaught w"
  "progressPercent (setTimeout cb d w) = progressPercent w"
  "messages (setTimeout cb d w) = messages w"
  by (simp_all add: setTimeout_def)

lemma sendTelemetry_frame [simp]:
  "gs (sendTelemetry ev url w) = gs w"
  "telemetry (sendTelemetry ev url w) = telemetry w @ [ev]"
  "intervals (sendTelemetry ev url w) = intervals w"
  "timeouts (sendTelemetry ev url w) = timeouts w"
  "playCommands (sendTelemetry ev url w) = playCommands w"
  "finishOnclick (sendTelemetry ev url w) = finishOnclick w"
  "finishDisplay (sendTelemetry ev url w) = finishDisplay w"
  "mainButton (sendTelemetry ev url w) = mainButton w"
  "uncaught (sendTelemetry ev url w) = uncaught w"
  "progressPercent (sendTelemetry ev url w) = progressPercent w"
  "messages (sendTelemetry ev url w) = messages w"
  by (simp_all add: sendTelemetry_def Let_def split: option.splits)

lemma clear_if_set_frame [simp]:
  "gs (clear_if_set t w) = gs w"
  "telemetry (clear_if_set t w) = telemetry w"
  "timeouts (clear_if_set t w) = timeouts w"
  "playCommands (clear_if_set t w) = playCommands w"
  "finishOnclick (clear_if_set t w) = finishOnclick w"
  "finishDisplay (clear_if_set t w) = finishDisplay w"
  "mainButton (clear_if_set t w) = mainButton w"
  "uncaught (clear_if_set t w) = uncaught w"
  "progressPercent (clear_if_set t w) = progressPercent w"
  "messages (clear_if_set t w) = messages w"
  by (simp_all add: clear_if_set_def clearInterval_def split: option.splits)

lemma clear_if_set_intervals:
  "set (intervals (clear_if_set t w)) =
     (case t of None \<Rightarrow> set (intervals w)
      | Some i \<Rightarrow> if i = 0 then set (intervals w) else set (intervals w) - {i})"
  by (auto simp: clear_if_set_def clearInterval_def split: option.splits)

section \<open>The completion transition\<close>

lemma generateCompletionCode_prefix:
  "\<exists>rest. generateCompletionCode rnd = ''PM-'' @ rest"
proof -
  have app: "\<exists>rest. foldl (\<lambda>code i. code @ f i) acc xs = acc @ rest"
    for f :: "nat \<Rightarrow> string" and acc xs
  proof (induction xs arbitrary: acc)
    case Nil
    show ?case by simp
  next
    case (Cons x xs)
    from Cons [of "acc @ f x"] show ?case by auto
  qed
  show ?thesis unfolding generateCompletionCode_def
    by (rule app [of "\<lambda>i. charAt code_chars \<lfloor>rnd i * real (length code_chars)\<rfloor>"])
qed

lemma generateCompletionCode_nonempty: "generateCompletionCode rnd \<noteq> []"
  using generateCompletionCode_prefix [of rnd] by auto

lemma unlockCompletion_completed_noop:
  "completed (gs w) \<Longrightarrow> unlockCompletion now rnd w = w"
  by (simp add: unlockCompletion_def)

lemma maybeUnlockCompletion_completed_noop:
  "completed (gs w) \<Longrightarrow> maybeUnlockCompletion now rnd w = w"
  by (simp add: maybeUnlockCompletion_def)

lemma unlockCompletion_gs:
  "gs (unlockCompletion now rnd w) =
     (if completed (gs w) then gs w
      else (gs w)\<lparr>completionCode := Some (generateCompletionCode rnd)\<rparr>)"
  by (simp add: unlockCompletion_def Let_def split: option.splits)

lemma unlockCompletion_completes: "completed (gs (unlockCompletion now rnd w))"
  by (simp add: unlockCompletion_gs completed_def generateCompletionCode_nonempty
           split: option.splits)

lemma unlockCompletion_telemetry:
  "\<not> completed (gs w) \<Longrightarrow> user (gs w) = Some uid \<Longrightarrow>
   \<exists>ev. is_session_completed ev \<and> telemetry (unlockCompletion now rnd w) = telemetry w @ [ev]"
  by (simp add: unlockCompletion_def Let_def)

lemma unlockCompletion_intervals:
  "\<not> completed (gs w) \<Longrightarrow>
   set (intervals (unlockCompletion now rnd w)) =
     set (intervals w) - {i. i \<noteq> 0 \<and> (sessionTimer (gs w) = Some i \<or> unlockTimer (gs w) = Some i)}"
  by (auto simp: unlockCompletion_def Let_def clear_if_set_def clearInterval_def
           split: option.splits)

lemma unlockCompletion_other [simp]:
  "timeouts (unlockCompletion now rnd w) = timeouts w"
  "playCommands (unlockCompletion now rnd w) = playCommands w"
  "finishOnclick (unlockCompletion now rnd w) = finishOnclick w"
  "mainButton (unlockCompletion now rnd w) = mainButton w"
  "progressPercent (unlockCompletion now rnd w) = progressPercent w"
  by (simp_all add: unlockCompletion_def Let_def split: option.splits)

lemma unlockCompletion_uncaught:
  "user (gs w) \<noteq> None \<Longrightarrow> uncaught (unlockCompletion now rnd w) = uncaught w"
  by (auto simp: unlockCompletion_def Let_def split: option.splits)

lemma showEarlyFinishOption_frame [simp]:
  "gs (showEarlyFinishOption w) = gs w"
  "telemetry (showEarlyFinishOption w) = telemetry w"
  "intervals (showEarlyFinishOption w) = intervals w"
  "timeouts (showEarlyFinishOption w) = timeouts w"
  "playCommands (showEarlyFinishOption w) = playCommands w"
  "mainButton (showEarlyFinishOption w) = mainButton w"
  "uncaught (showEarlyFinishOption w) = uncaught w"
  "progressPercent (showEarlyFinishOption w) = progressPercent w"
  by (simp_all add: showEarlyFinishOption_def)

lemma maybeUnlockCompletion_gs:
  "gs (maybeUnlockCompletion now rnd w) =
     (if \<not> completed (gs w) \<and> elapsed_ms now (gs w) \<ge> sessionDuration (gs w) \<and>
         allTracksCompleted (gs w)
      then (gs w)\<lparr>completionCode := Some (generateCompletionCode rnd)\<rparr>
      else gs w)"
  by (simp add: maybeUnlockCompletion_def unlockCompletion_gs)

lemma maybeUnlockCompletion_other [simp]:
  "timeouts (maybeUnlockCompletion now rnd w) = timeouts w"
  "playCommands (maybeUnlockCompletion now rnd w) = playCommands w"
  "mainButton (maybeUnlockCompletion now rnd w) = mainButton w"
  "progressPercent (maybeUnlockCompletion now rnd w) = progressPercent w"
  by (simp_all add: maybeUnlockCompletion_def)

lemma maybeUnlockCompletion_not_all:
  "\<not> allTracksCompleted (gs w) \<Longrightarrow> maybeUnlockCompletion now rnd w = w"
  by (simp add: maybeUnlockCompletion_def)

section \<open>What each handler changes\<close>

lemma playCurrentTrack_frame [simp]:
  "gs (playCurrentTrack rnd res w) = gs w"
  "finishOnclick (playCurrentTrack rnd res w) = finishOnclick w"
  "finishDisplay (playCurrentTrack rnd res w) = finishDisplay w"
  "intervals (playCurrentTrack rnd res w) = intervals w"
  "mainButton (playCurrentTrack rnd res w) = mainButton w"
  "uncaught (playCurrentTrack rnd res w) = uncaught w"
  by (simp_all add: playCurrentTrack_def scheduleNoiseInteraction_def Let_def
               split: sum.splits option.splits)

lemma playNextTrack_frame [simp]:
  "finishOnclick (playNextTrack rnd w) = finishOnclick w"
  "finishDisplay (playNextTrack rnd w) = finishDisplay w"
  "intervals (playNextTrack rnd w) = intervals w"
  "playCommands (playNextTrack rnd w) = playCommands w"
  "mainButton (playNextTrack rnd w) = mainButton w"
  by (simp_all add: playNextTrack_def Let_def split: option.splits)

lemma playNextTrack_gs:
  "gs (playNextTrack rnd w) = gs w \<or>
   (currentTrack (gs w) < length (trackOrder (gs w)) \<and>
    gs (playNextTrack rnd w) = (gs w)\<lparr>currentTrack := currentTrack (gs w) + 1\<rparr>)"
  by (simp add: playNextTrack_def Let_def split: option.splits)

lemma noiseCallback_frame [simp]:
  "finishOnclick (noiseCallback rnd vol w) = finishOnclick w"
  "finishDisplay (noiseCallback rnd vol w) = finishDisplay w"
  "intervals (noiseCallback rnd vol w) = intervals w"
  "telemetry (noiseCallback rnd vol w) = telemetry w"
  "mainButton (noiseCallback rnd vol w) = mainButton w"
  by (simp_all add: noiseCallback_def Let_def)

lemma noiseCallback_gs:
  "gs (noiseCallback rnd vol w) = gs w \<or>
   gs (noiseCallback rnd vol w) = (gs w)\<lparr>noiseApplied := True\<rparr>"
  by (simp add: noiseCallback_def Let_def)

lemma createPlaylist_frame:
  "createPlaylist name pub api w = (w', r) \<Longrightarrow>
     finishOnclick w' = finishOnclick w \<and> finishDisplay w' = finishDisplay w \<and>
     intervals w' = intervals w \<and> timeouts w' = timeouts w \<and>
     playCommands w' = playCommands w \<and> mainButton w' = mainButton w \<and>
     messages w' = messages w \<and>
     (gs w' = gs w \<or> (\<exists>pid. createPlaylistRes api = Inr pid \<and>
                             gs w' = (gs w)\<lparr>playlist := Some pid\<rparr>))"
  by (auto simp: createPlaylist_def Let_def split: option.splits sum.splits)

lemma transferPlayback_frame:
  "transferPlayback api w = (w', r) \<Longrightarrow> w' = w"
  by (auto simp: transferPlayback_def split: sum.splits if_splits)

lemma start_failed_frame [simp]:
  "gs (start_failed e w) = gs w"
  "finishOnclick (start_failed e w) = finishOnclick w"
  "finishDisplay (start_failed e w) = finishDisplay w"
  "intervals (start_failed e w) = intervals w"
  "timeouts (start_failed e w) = timeouts w"
  "playCommands (start_failed e w) = playCommands w"
  "mainButton (start_failed e w) = (''Start Session'', True)"
  "messages (start_failed e w) = messages w @ [(''Failed to start: '' @ err_message e, ''error'')]"
  by (simp_all add: start_failed_def)

text \<open>
  The game state after \<^verbatim>\<open>startSession\<close>: on a failure before the first track is set, at
  most the playlist has changed; otherwise the track counter, the start time and the
  two timer handles are set as well.
\<close>

lemma startSession_gs:
  "(\<exists>pl. gs (startSession now rnd name pub api w) = (gs w)\<lparr>playlist := pl\<rparr>) \<or>
   (\<exists>pl i j. gs (startSession now rnd name pub api w) =
      (gs w)\<lparr>playlist := pl, currentTrack := 1, startedAt := Some now,
              sessionTimer := Some i, unlockTimer := Some j\<rparr>)"
proof -
  define w0 where "w0 = showMessage ''Creating playlist and starting playback...'' ''info''
                 (updateButton ''Starting...'' False w)"
  obtain w1 r1 where c: "createPlaylist name pub api w0 = (w1, r1)" by force
  obtain w2 r2 where t: "transferPlayback api w1 = (w2, r2)" by force
  have g0: "gs w0 = gs w" by (simp add: w0_def)
  from createPlaylist_frame [OF c] g0
  have g1: "gs w1 = gs w \<or> (\<exists>pid. gs w1 = (gs w)\<lparr>playlist := Some pid\<rparr>)" by auto
  then have g1': "\<exists>pl. gs w1 = (gs w)\<lparr>playlist := pl\<rparr>"
    by (metis gameState.surjective gameState.update_convs(5))
  from transferPlayback_frame [OF t] have w2: "w2 = w1" .
  show ?thesis
  proof (cases r1)
    case (Some e)
    then show ?thesis using c g1'
      by (simp add: startSession_def Let_def w0_def [symmetric])
  next
    case None
    note r1 = this
    show ?thesis
    proof (cases r2)
      case (Some e)
      then show ?thesis using c t r1 g1' w2
        by (simp add: startSession_def Let_def w0_def [symmetric])
    next
      case None
      from g1' obtain pl where "gs w1 = (gs w)\<lparr>playlist := pl\<rparr>" by blast
      then show ?thesis using c t r1 None w2
        by (intro disjI2) (auto simp: startSession_def Let_def w0_def [symmetric] setInterval_def)
    qed
  qed
qed

lemma startSession_frame [simp]:
  "finishOnclick (startSession now rnd name pub api w) = finishOnclick w"
  "finishDisplay (startSession now rnd name pub api w) = finishDisplay w"
proof -
  define w0 where "w0 = showMessage ''Creating playlist and starting playback...'' ''info''
                 (updateButton ''Starting...'' False w)"
  obtain w1 r1 where c: "createPlaylist name pub api w0 = (w1, r1)" by force
  obtain w2 r2 where t: "transferPlayback api w1 = (w2, r2)" by force
  from createPlaylist_frame [OF c]
  have f1: "finishOnclick w1 = finishOnclick w" "finishDisplay w1 = finishDisplay w"
    by (simp_all add: w0_def)
  from transferPlayback_frame [OF t] have w2: "w2 = w1" .
  show "finishOnclick (startSession now rnd name pub api w) = finishOnclick w"
    using c t f1 w2
    by (simp add: startSession_def Let_def w0_def [symmetric] setInterval_def
             split: option.splits)
  show "finishDisplay (startSession now rnd name pub api w) = finishDisplay w"
    using c t f1 w2
    by (simp add: startSession_def Let_def w0_def [symmetric] setInterval_def
             split: option.splits)
qed

lemma handlePlayerStateChanged_null [simp]:
  "handlePlayerStateChanged now rnd None w = w"
  by (simp add: handlePlayerStateChanged_def)

lemma updateTrackProgress_frame [simp]:
  "gs (updateTrackProgress w) = gs w"
  "telemetry (updateTrackProgress w) = telemetry w"
  "intervals (updateTrackProgress w) = intervals w"
  "timeouts (updateTrackProgress w) = timeouts w"
  "playCommands (updateTrackProgress w) = playCommands w"
  "finishOnclick (updateTrackProgress w) = finishOnclick w"
  "finishDisplay (updateTrackProgress w) = finishDisplay w"
  "mainButton (updateTrackProgress w) = mainButton w"
  "uncaught (updateTrackProgress w) = uncaught w"
  by (simp_all add: updateTrackProgress_def Let_def)

lemma handlePlayerStateChanged_decompose:
  "\<exists>w3. handlePlayerStateChanged now rnd (Some t) w = maybeUnlockCompletion now rnd w3 \<and>
     gs w3 = (gs w)\<lparr>currentPosition := position t, currentDuration := duration t,
                    isPlaying := \<not> paused t,
                    tracksCompleted :=
                      (if currentTrack (gs w) > 0 \<and> duration t > 0 \<and>
                          position t / duration t \<ge> minTrackRatio (gs w)
                       then finsert (currentTrack (gs w)) (tracksCompleted (gs w))
                       else tracksCompleted (gs w))\<rparr> \<and>
     timeouts w3 = (if currentTrack (gs w) > 0 \<and> duration t > 0 \<and>
                       position t \<ge> duration t - 1000 \<and> \<not> paused t
                    then timeouts w @ [(100, CbPlayNextTrack)] else timeouts w) \<and>
     finishOnclick w3 = finishOnclick w \<and> finishDisplay w3 = finishDisplay w \<and>
     telemetry w3 = telemetry w \<and> intervals w3 = intervals w \<and>
     playCommands w3 = playCommands w \<and> uncaught w3 = uncaught w \<and>
     mainButton w3 = mainButton w \<and>
     progressPercent w3 = progressPercent (updateTrackProgress
        (w\<lparr>gs := (gs w)\<lparr>currentPosition := position t, currentDuration := duration t,
                           isPlaying := \<not> paused t\<rparr>\<rparr>))"
proof -
  define w2 where "w2 = updateTrackProgress
        (w\<lparr>gs := (gs w)\<lparr>currentPosition := position t, currentDuration := duration t,
                           isPlaying := \<not> paused t\<rparr>\<rparr>)"
  define w2a where "w2a = (if position t / duration t \<ge> minTrackRatio (gs w2) \<and>
                              currentTrack (gs w2) |\<notin>| tracksCompleted (gs w2)
                           then w2\<lparr>gs := (gs w2)\<lparr>tracksCompleted :=
                                  finsert (currentTrack (gs w2)) (tracksCompleted (gs w2))\<rparr>\<rparr>
                           else w2)"
  define w3 where "w3 = (if currentTrack (gs w2) > 0 \<and> duration t > 0
                         then if position t \<ge> duration t - 1000 \<and> isPlaying (gs w2a)
                              then setTimeout CbPlayNextTrack 100 w2a else w2a
                         else w2)"
  have h: "handlePlayerStateChanged now rnd (Some t) w = maybeUnlockCompletion now rnd w3"
    by (simp add: handlePlayerStateChanged_def Let_def w3_def w2a_def w2_def)
  have g2: "gs w2 = (gs w)\<lparr>currentPosition := position t, currentDuration := duration t,
                           isPlaying := \<not> paused t\<rparr>"
    by (simp add: w2_def)
  have g2a: "gs w2a = (gs w2)\<lparr>tracksCompleted :=
                (if position t / duration t \<ge> minTrackRatio (gs w)
                 then finsert (currentTrack (gs w)) (tracksCompleted (gs w))
                 else tracksCompleted (gs w))\<rparr>"
    by (simp add: w2a_def g2 finsert_absorb)
  have o2a: "timeouts w2a = timeouts w" "finishOnclick w2a = finishOnclick w"
    "finishDisplay w2a = finishDisplay w" "telemetry w2a = telemetry w"
    "intervals w2a = intervals w" "playCommands w2a = playCommands w"
    "uncaught w2a = uncaught w" "mainButton w2a = mainButton w"
    "progressPercent w2a = progressPercent w2"
    by (simp_all add: w2a_def w2_def)
  have o2: "timeouts w2 = timeouts w" "finishOnclick w2 = finishOnclick w"
    "finishDisplay w2 = finishDisplay w" "telemetry w2 = telemetry w"
    "intervals w2 = intervals w" "playCommands w2 = playCommands w"
    "uncaught w2 = uncaught w" "mainButton w2 = mainButton w"
    by (simp_all add: w2_def)
  have "gs w3 = (gs w)\<lparr>currentPosition := position t, currentDuration := duration t,
                    isPlaying := \<not> paused t,
                    tracksCompleted :=
                      (if currentTrack (gs w) > 0 \<and> duration t > 0 \<and>
                          position t / duration t \<ge> minTrackRatio (gs w)
                       then finsert (currentTrack (gs w)) (tracksCompleted (gs w))
                       else tracksCompleted (gs w))\<rparr>"
    by (simp add: w3_def g2a g2)
  moreover have "timeouts w3 = (if currentTrack (gs w) > 0 \<and> duration t > 0 \<and>
                       position t \<ge> duration t - 1000 \<and> \<not> paused t
                    then timeouts w @ [(100, CbPlayNextTrack)] else timeouts w)"
    by (simp add: w3_def g2a g2 o2a o2)
  moreover have "finishOnclick w3 = finishOnclick w" "finishDisplay w3 = finishDisplay w"
     "telemetry w3 = telemetry w" "intervals w3 = intervals w"
     "playCommands w3 = playCommands w" "uncaught w3 = uncaught w"
     "mainButton w3 = mainButton w" "progressPercent w3 = progressPercent w2"
    by (simp_all add: w3_def o2a o2)
  ultimately show ?thesis using h unfolding w2_def by blast
qed

section \<open>Invariants of runs\<close>

lemma not_all_done:
  assumes "k |\<notin>| S" "fBall S (\<lambda>j. 1 \<le> j \<and> j \<le> n)" "1 \<le> k" "k \<le> n"
  shows "fcard S \<noteq> n"
proof -
  have "fset S \<subseteq> {1..n} - {k}" using assms(1,2) by auto
  then have "card (fset S) \<le> card ({1..n} - {k})"
    by (intro card_mono) simp_all
  also have "\<dots> = n - 1" using assms(3,4) by simp
  finally have "fcard S \<le> n - 1" by (simp add: fcard.rep_eq)
  with assms(3,4) show ?thesis by linarith
qed

lemma session_inv_not_all:
  "session_inv k w \<Longrightarrow> \<not> allTracksCompleted (gs w)"
  unfolding session_inv_def allTracksCompleted_def
  using not_all_done [of k "tracksCompleted (gs w)" "length (trackOrder (gs w))"] by blast

lemma session_inv_step:
  assumes "session_inv k w" "\<not> tick_reaches k e w"
  shows "session_inv k (step now rnd e w)"
proof (cases e)
  case (PlayerStateChanged st)
  show ?thesis
  proof (cases st)
    case None
    then show ?thesis using assms PlayerStateChanged by simp
  next
    case (Some t)
    from handlePlayerStateChanged_decompose [of now rnd t w] obtain w3 where
      h: "handlePlayerStateChanged now rnd (Some t) w = maybeUnlockCompletion now rnd w3"
      and g: "gs w3 = (gs w)\<lparr>currentPosition := position t, currentDuration := duration t,
                    isPlaying := \<not> paused t,
                    tracksCompleted :=
                      (if currentTrack (gs w) > 0 \<and> duration t > 0 \<and>
                          position t / duration t \<ge> minTrackRatio (gs w)
                       then finsert (currentTrack (gs w)) (tracksCompleted (gs w))
                       else tracksCompleted (gs w))\<rparr>"
      and f: "finishOnclick w3 = finishOnclick w"
      by blast
    have nk: "\<not> (currentTrack (gs w) = k \<and> duration t > 0 \<and>
                 position t / duration t \<ge> minTrackRatio (gs w))"
      using assms(2) PlayerStateChanged Some by simp
    have "session_inv k w3"
      using assms(1) nk g f unfolding session_inv_def by auto
    then have "maybeUnlockCompletion now rnd w3 = w3 \<and> session_inv k w3"
      using maybeUnlockCompletion_not_all session_inv_not_all by blast
    then show ?thesis using h PlayerStateChanged Some by simp
  qed
next
  case UnlockTimerFired
  then show ?thesis
    using assms(1) maybeUnlockCompletion_not_all [OF session_inv_not_all [OF assms(1)]]
    by simp
next
  case FinishClicked
  then show ?thesis using assms(1) by (simp add: session_inv_def)
next
  case NextTrackTimeout
  then show ?thesis
    using assms(1) playNextTrack_gs [of rnd w] unfolding session_inv_def by auto
next
  case (CurrentTrackTimeout res)
  then show ?thesis using assms(1) by (simp add: session_inv_def)
next
  case (NoiseTimeout vol)
  then show ?thesis
    using assms(1) noiseCallback_gs [of rnd vol w] unfolding session_inv_def by auto
next
  case (StartClicked name pub api)
  then show ?thesis
    using assms(1) startSession_gs [of now rnd name pub api w] unfolding session_inv_def
    by auto
qed

lemma session_inv_run:
  "session_inv k w \<Longrightarrow> \<not> reaches k evs w \<Longrightarrow> session_inv k (run evs w)"
proof (induction evs arbitrary: w)
  case Nil
  then show ?case by simp
next
  case (Cons x evs)
  obtain now rnd e where x: "x = (now, rnd, e)" by (cases x)
  from Cons.prems x have "\<not> tick_reaches k e w" "\<not> reaches k evs (step now rnd e w)"
    by simp_all
  with Cons.prems(1) Cons.IH [of "step now rnd e w"] x show ?case
    by (simp add: session_inv_step)
qed

text \<open>A completion code the program has written is never the empty string.\<close>

lemma step_code:
  "completionCode (gs (step now rnd e w)) = completionCode (gs w) \<or>
   completionCode (gs (step now rnd e w)) = Some (generateCompletionCode rnd)"
proof (cases e)
  case (PlayerStateChanged st)
  show ?thesis
  proof (cases st)
    case None
    then show ?thesis using PlayerStateChanged by simp
  next
    case (Some t)
    from handlePlayerStateChanged_decompose [of now rnd t w] obtain w3 where
      "handlePlayerStateChanged now rnd (Some t) w = maybeUnlockCompletion now rnd w3"
      "completionCode (gs w3) = completionCode (gs w)"
      by auto
    then show ?thesis using PlayerStateChanged Some
      by (simp add: maybeUnlockCompletion_gs)
  qed
next
  case UnlockTimerFired
  then show ?thesis by (simp add: maybeUnlockCompletion_gs)
next
  case FinishClicked
  then show ?thesis by (simp add: unlockCompletion_gs)
next
  case NextTrackTimeout
  then show ?thesis using playNextTrack_gs [of rnd w] by auto
next
  case (CurrentTrackTimeout res)
  then show ?thesis by simp
next
  case (NoiseTimeout vol)
  then show ?thesis using noiseCallback_gs [of rnd vol w] by auto
next
  case (StartClicked name pub api)
  then show ?thesis using startSession_gs [of now rnd name pub api w] by auto
qed

lemma run_code_nonempty:
  "completionCode (gs w) \<noteq> Some [] \<Longrightarrow> completionCode (gs (run evs w)) \<noteq> Some []"
proof (induction evs arbitrary: w)
  case Nil
  then show ?case by simp
next
  case (Cons x evs)
  obtain now rnd e where x: "x = (now, rnd, e)" by (cases x)
  have "completionCode (gs (step now rnd e w)) \<noteq> Some []"
    using step_code [of now rnd e w] Cons.prems generateCompletionCode_nonempty [of rnd]
    by auto
  with Cons.IH [of "step now rnd e w"] x show ?case by simp
qed

lemma completed_iff_code:
  "completionCode g \<noteq> Some [] \<Longrightarrow> completed g \<longleftrightarrow> completionCode g \<noteq> None"
  by (auto simp: completed_def split: option.splits)

lemma reaches_take: "\<not> reaches k evs w \<Longrightarrow> \<not> reaches k (take n evs) w"
proof (induction evs arbitrary: w n)
  case Nil
  then show ?case by simp
next
  case (Cons x evs)
  obtain now rnd e where x: "x = (now, rnd, e)" by (cases x)
  show ?case
  proof (cases n)
    case 0
    then show ?thesis by simp
  next
    case (Suc m)
    with Cons x show ?thesis by auto
  qed
qed

lemma run_never_completes:
  assumes "completionCode (gs w0) = None" "\<not> finishOnclick w0"
    "tracksCompleted (gs w0) = {||}"
    "currentTrack (gs w0) \<le> length (trackOrder (gs w0))"
    "1 \<le> k" "k \<le> length (trackOrder (gs w0))" "\<not> reaches k evs w0"
  shows "completionCode (gs (run (take n evs) w0)) = None"
proof -
  have "session_inv k w0" using assms by (simp add: session_inv_def)
  moreover have "\<not> reaches k (take n evs) w0" using assms(7) by (rule reaches_take)
  ultimately have "session_inv k (run (take n evs) w0)" by (rule session_inv_run)
  then show ?thesis by (simp add: session_inv_def)
qed

lemma maybeUnlockCompletion_transition:
  "(completionCode (gs w) = None \<and>
      completionCode (gs (maybeUnlockCompletion now rnd w)) \<noteq> None) \<longleftrightarrow>
   (completionCode (gs w) = None \<and> sessionDuration (gs w) \<le> elapsed_ms now (gs w) \<and>
      fcard (tracksCompleted (gs w)) = length (trackOrder (gs w)))"
  by (auto simp: maybeUnlockCompletion_gs completed_def allTracksCompleted_def)

section \<open>The claims about completion\<close>

text \<open>
  C1. In every state \<open>w\<close> of a session (a state reached by a run from a state with
  no completion code) the completion transition runs exactly once. While the code is not
  null, \<^verbatim>\<open>unlockCompletion\<close> and \<^verbatim>\<open>maybeUnlockCompletion\<close> return the world unchanged.
  While it is null (and the profile of the user is present), \<^verbatim>\<open>unlockCompletion\<close>
  writes the code, stops the session timer and the completion-check timer (every handle
  \<^verbatim>\<open>setInterval\<close> returns is non-zero), and makes exactly one \<^verbatim>\<open>session_completed\<close>
  call of \<^verbatim>\<open>sendTelemetry\<close>; a second trigger of either kind, at any later time and with
  any draws, changes nothing; and when the time and ratio test holds,
  \<^verbatim>\<open>maybeUnlockCompletion\<close> is this same transition. The source writes the code before
  its first \<^verbatim>\<open>await\<close>, so a trigger arriving in between already sees it. The event
  counted is the call of \<^verbatim>\<open>sendTelemetry\<close>; whether the call posts a request depends on
  the configured URL.
\<close>

theorem completion_transition_once:
  assumes "completionCode (gs w0) = None" "w = run evs w0"
  shows "(completionCode (gs w) \<noteq> None \<longrightarrow>
            unlockCompletion now rnd w = w \<and> maybeUnlockCompletion now rnd w = w) \<and>
         (completionCode (gs w) = None \<and> user (gs w) \<noteq> None \<longrightarrow>
            completionCode (gs (unlockCompletion now rnd w)) =
              Some (generateCompletionCode rnd) \<and>
            (\<forall>i. i \<noteq> 0 \<and> (sessionTimer (gs w) = Some i \<or> unlockTimer (gs w) = Some i) \<longrightarrow>
                 i \<notin> set (intervals (unlockCompletion now rnd w))) \<and>
            (\<exists>ev. is_session_completed ev \<and>
                  telemetry (unlockCompletion now rnd w) = telemetry w @ [ev]) \<and>
            unlockCompletion now' rnd' (unlockCompletion now rnd w) =
              unlockCompletion now rnd w \<and>
            maybeUnlockCompletion now' rnd' (unlockCompletion now rnd w) =
              unlockCompletion now rnd w \<and>
            (sessionDuration (gs w) \<le> elapsed_ms now (gs w) \<and> allTracksCompleted (gs w) \<longrightarrow>
               maybeUnlockCompletion now rnd w = unlockCompletion now rnd w))"
proof (intro conjI impI)
  have ok: "completionCode (gs w) \<noteq> Some []"
    using assms run_code_nonempty [of w0 evs] by simp
  {
    assume "completionCode (gs w) \<noteq> None"
    then have c: "completed (gs w)" using ok by (simp add: completed_iff_code)
    show "unlockCompletion now rnd w = w" using c by (rule unlockCompletion_completed_noop)
    show "maybeUnlockCompletion now rnd w = w"
      using c by (rule maybeUnlockCompletion_completed_noop)
  }
  {
    assume h: "completionCode (gs w) = None \<and> user (gs w) \<noteq> None"
    then have nc: "\<not> completed (gs w)" by (simp add: completed_def)
    from h obtain uid where uid: "user (gs w) = Some uid" by auto
    show "completionCode (gs (unlockCompletion now rnd w)) = Some (generateCompletionCode rnd)"
      using nc by (simp add: unlockCompletion_gs)
    show "\<forall>i. i \<noteq> 0 \<and> (sessionTimer (gs w) = Some i \<or> unlockTimer (gs w) = Some i) \<longrightarrow>
                 i \<notin> set (intervals (unlockCompletion now rnd w))"
      using unlockCompletion_intervals [OF nc, of now rnd] by auto
    show "\<exists>ev. is_session_completed ev \<and>
                  telemetry (unlockCompletion now rnd w) = telemetry w @ [ev]"
      using nc uid by (rule unlockCompletion_telemetry)
    show "unlockCompletion now' rnd' (unlockCompletion now rnd w) = unlockCompletion now rnd w"
      using unlockCompletion_completes by (rule unlockCompletion_completed_noop)
    show "maybeUnlockCompletion now' rnd' (unlockCompletion now rnd w) =
            unlockCompletion now rnd w"
      using unlockCompletion_completes by (rule maybeUnlockCompletion_completed_noop)
    {
      assume "sessionDuration (gs w) \<le> elapsed_ms now (gs w) \<and> allTracksCompleted (gs w)"
      then show "maybeUnlockCompletion now rnd w = unlockCompletion now rnd w"
        using nc by (simp add: maybeUnlockCompletion_def)
    }
  }
qed

theorem completion_transition_once_witness:
  "completionCode (gs runningWorld) = None \<and> runningWorld = run [] runningWorld \<and>
   user (gs runningWorld) \<noteq> None \<and>
   completionCode (gs (unlockCompletion 900000 (\<lambda>_. 0) runningWorld)) = Some ''PM-000000'' \<and>
   1 \<notin> set (intervals (unlockCompletion 900000 (\<lambda>_. 0) runningWorld)) \<and>
   2 \<notin> set (intervals (unlockCompletion 900000 (\<lambda>_. 0) runningWorld)) \<and>
   unlockCompletion 900001 (\<lambda>_. 1 / 2) (unlockCompletion 900000 (\<lambda>_. 0) runningWorld) =
     unlockCompletion 900000 (\<lambda>_. 0) runningWorld \<and>
   maybeUnlockCompletion 900001 (\<lambda>_. 1 / 2) (unlockCompletion 900000 (\<lambda>_. 0) runningWorld) =
     unlockCompletion 900000 (\<lambda>_. 0) runningWorld"
proof -
  have a: "completionCode (gs runningWorld) = None"
    by (simp add: runningWorld_def readyWorld_def initialWorld_def initialGameState_def)
  have b: "runningWorld = run [] runningWorld" by simp
  have u: "user (gs runningWorld) \<noteq> None"
    by (simp add: runningWorld_def readyWorld_def initialWorld_def initialGameState_def)
  have t: "sessionTimer (gs runningWorld) = Some 1" "unlockTimer (gs runningWorld) = Some 2"
    by (simp_all add: runningWorld_def readyWorld_def initialWorld_def initialGameState_def)
  have c: "generateCompletionCode (\<lambda>_. 0) = ''PM-000000''"
    by (simp add: generateCompletionCode_def charAt_def code_chars_def upt_rec)
  from completion_transition_once [OF a b, of 900000 "\<lambda>_. 0" 900001 "\<lambda>_. 1 / 2"] a u t c
  show ?thesis by auto
qed

text \<open>
  C2. \<^verbatim>\<open>maybeUnlockCompletion\<close> takes the session from no completion code to a completion
  code exactly when the code is null, the elapsed time is at least \<open>sessionDuration\<close> and
  the number of completed tracks equals the length of the track order. And in every run
  from a fresh session (no code, no completed track, finish button not armed) in which
  some track \<open>k\<close> of the order never reaches the ratio, the code is null after every
  prefix of the run, whatever the elapsed time.
\<close>

theorem checkCompletion_transition_iff:
  "((completionCode (gs w) = None \<and>
       completionCode (gs (maybeUnlockCompletion now rnd w)) \<noteq> None) \<longleftrightarrow>
    (completionCode (gs w) = None \<and> sessionDuration (gs w) \<le> elapsed_ms now (gs w) \<and>
       fcard (tracksCompleted (gs w)) = length (trackOrder (gs w)))) \<and>
   (completionCode (gs w0) = None \<and> \<not> finishOnclick w0 \<and>
    tracksCompleted (gs w0) = {||} \<and>
    currentTrack (gs w0) \<le> length (trackOrder (gs w0)) \<and>
    1 \<le> k \<and> k \<le> length (trackOrder (gs w0)) \<and> \<not> reaches k evs w0 \<longrightarrow>
    (\<forall>n. completionCode (gs (run (take n evs) w0)) = None))"
  using maybeUnlockCompletion_transition [of w now rnd] run_never_completes [of w0 k evs]
  by blast

theorem checkCompletion_transition_iff_witness:
  "completionCode (gs runningWorld) = None \<and> \<not> finishOnclick runningWorld \<and>
   tracksCompleted (gs runningWorld) = {||} \<and>
   currentTrack (gs runningWorld) \<le> length (trackOrder (gs runningWorld)) \<and>
   (1 :: nat) \<le> 1 \<and> 1 \<le> length (trackOrder (gs runningWorld)) \<and>
   \<not> reaches 1
       [(5000, \<lambda>_. 0, PlayerStateChanged (Some \<lparr>position = 1000, duration = 200000,
                                                paused = False\<rparr>)),
        (900000, \<lambda>_. 0, UnlockTimerFired)] runningWorld \<and>
   sessionDuration (gs runningWorld) \<le> elapsed_ms 900000 (gs runningWorld) \<and>
   completionCode (gs (run
       [(5000, \<lambda>_. 0, PlayerStateChanged (Some \<lparr>position = 1000, duration = 200000,
                                                paused = False\<rparr>)),
        (900000, \<lambda>_. 0, UnlockTimerFired)] runningWorld)) = None"
proof -
  let ?evs = "[(5000 :: real, \<lambda>_ :: nat. 0 :: real,
                 PlayerStateChanged (Some \<lparr>position = 1000, duration = 200000,
                                          paused = False\<rparr>)),
               (900000, \<lambda>_. 0, UnlockTimerFired)]"
  have h: "completionCode (gs runningWorld) = None \<and> \<not> finishOnclick runningWorld \<and>
     tracksCompleted (gs runningWorld) = {||} \<and>
     currentTrack (gs runningWorld) \<le> length (trackOrder (gs runningWorld)) \<and>
     (1 :: nat) \<le> 1 \<and> 1 \<le> length (trackOrder (gs runningWorld)) \<and>
     \<not> reaches 1 ?evs runningWorld"
    by (simp add: runningWorld_def readyWorld_def initialWorld_def initialGameState_def)
  have e: "sessionDuration (gs runningWorld) \<le> elapsed_ms 900000 (gs runningWorld)"
    by (simp add: runningWorld_def readyWorld_def initialWorld_def initialGameState_def
          elapsed_ms_def)
  from checkCompletion_transition_iff [of runningWorld 0 "\<lambda>_. 0" runningWorld 1 ?evs] h
  have "\<forall>n. completionCode (gs (run (take n ?evs) runningWorld)) = None" by blast
  then have "completionCode (gs (run (take 2 ?evs) runningWorld)) = None" by blast
  then have "completionCode (gs (run ?evs runningWorld)) = None" by simp
  with h e show ?thesis by blast
qed

lemma maybeUnlockCompletion_uncaught:
  "user (gs w) \<noteq> None \<Longrightarrow> uncaught (maybeUnlockCompletion now rnd w) = uncaught w"
  by (simp add: maybeUnlockCompletion_def unlockCompletion_uncaught)

lemma maybeUnlockCompletion_early:
  assumes "allTracksCompleted (gs w)" "earlyFinishThreshold (gs w) \<le> elapsed_ms now (gs w)"
    "elapsed_ms now (gs w) < sessionDuration (gs w)"
  shows "maybeUnlockCompletion now rnd w =
           (if completed (gs w) then w else showEarlyFinishOption w)"
  using assms by (simp add: maybeUnlockCompletion_def)

lemma step_needs_time_or_click:
  assumes "completionCode (gs w) = None" "elapsed_ms now (gs w) < sessionDuration (gs w)"
    "e \<noteq> FinishClicked"
  shows "completionCode (gs (step now rnd e w)) = None"
proof (cases e)
  case (PlayerStateChanged st)
  show ?thesis
  proof (cases st)
    case None
    then show ?thesis using assms(1) PlayerStateChanged by simp
  next
    case (Some t)
    from handlePlayerStateChanged_decompose [of now rnd t w] obtain w3 where
      h: "handlePlayerStateChanged now rnd (Some t) w = maybeUnlockCompletion now rnd w3"
      and "completionCode (gs w3) = completionCode (gs w)"
      and "startedAt (gs w3) = startedAt (gs w)"
      and "sessionDuration (gs w3) = sessionDuration (gs w)"
      by auto
    then have "completionCode (gs w3) = None"
      "elapsed_ms now (gs w3) < sessionDuration (gs w3)"
      using assms(1,2) by (simp_all add: elapsed_ms_def)
    then show ?thesis using h PlayerStateChanged Some
      by (simp add: maybeUnlockCompletion_gs)
  qed
next
  case UnlockTimerFired
  then show ?thesis using assms(1,2) by (simp add: maybeUnlockCompletion_gs)
next
  case FinishClicked
  then show ?thesis using assms(3) by simp
next
  case NextTrackTimeout
  then show ?thesis using assms(1) playNextTrack_gs [of rnd w] by auto
next
  case (CurrentTrackTimeout res)
  then show ?thesis using assms(1) by simp
next
  case (NoiseTimeout vol)
  then show ?thesis using assms(1) noiseCallback_gs [of rnd vol w] by auto
next
  case (StartClicked name pub api)
  then show ?thesis using assms(1) startSession_gs [of now rnd name pub api w] by auto
qed

text \<open>
  C5. When all tracks are completed and the elapsed time is at least
  \<open>earlyFinishThreshold\<close> but less than \<open>sessionDuration\<close>, \<^verbatim>\<open>maybeUnlockCompletion\<close>
  leaves the whole game state as it is (the completion code included), makes no telemetry
  call, and touches no timer, timeout or play request. If the session is not completed
  and the finish button is hidden, the button is shown and armed, and a click on the
  armed button completes the session. No other event handled at that time completes it.
\<close>

theorem early_finish_is_signal_only:
  assumes "allTracksCompleted (gs w)" "earlyFinishThreshold (gs w) \<le> elapsed_ms now (gs w)"
    "elapsed_ms now (gs w) < sessionDuration (gs w)"
  shows "gs (maybeUnlockCompletion now rnd w) = gs w \<and>
         telemetry (maybeUnlockCompletion now rnd w) = telemetry w \<and>
         intervals (maybeUnlockCompletion now rnd w) = intervals w \<and>
         timeouts (maybeUnlockCompletion now rnd w) = timeouts w \<and>
         playCommands (maybeUnlockCompletion now rnd w) = playCommands w \<and>
         (completionCode (gs w) = None \<and> finishDisplay w = ''none'' \<longrightarrow>
            finishDisplay (maybeUnlockCompletion now rnd w) = ''block'' \<and>
            finishOnclick (maybeUnlockCompletion now rnd w) \<and>
            completionCode (gs (step now' rnd' FinishClicked
                                  (maybeUnlockCompletion now rnd w))) =
              Some (generateCompletionCode rnd')) \<and>
         (\<forall>e. completionCode (gs w) = None \<and> e \<noteq> FinishClicked \<longrightarrow>
              completionCode (gs (step now rnd e w)) = None)"
proof -
  have m: "maybeUnlockCompletion now rnd w =
             (if completed (gs w) then w else showEarlyFinishOption w)"
    using assms by (rule maybeUnlockCompletion_early)
  have "gs (maybeUnlockCompletion now rnd w) = gs w"
       "telemetry (maybeUnlockCompletion now rnd w) = telemetry w"
       "intervals (maybeUnlockCompletion now rnd w) = intervals w"
       "timeouts (maybeUnlockCompletion now rnd w) = timeouts w"
       "playCommands (maybeUnlockCompletion now rnd w) = playCommands w"
    by (simp_all add: m)
  moreover have "finishDisplay (maybeUnlockCompletion now rnd w) = ''block'' \<and>
            finishOnclick (maybeUnlockCompletion now rnd w) \<and>
            completionCode (gs (step now' rnd' FinishClicked
                                  (maybeUnlockCompletion now rnd w))) =
              Some (generateCompletionCode rnd')"
    if h: "completionCode (gs w) = None \<and> finishDisplay w = ''none''"
  proof -
    from h have nc: "\<not> completed (gs w)" by (simp add: completed_def)
    with h m show ?thesis
      by (simp add: showEarlyFinishOption_def unlockCompletion_gs)
  qed
  moreover have "\<forall>e. completionCode (gs w) = None \<and> e \<noteq> FinishClicked \<longrightarrow>
              completionCode (gs (step now rnd e w)) = None"
    using assms(3) step_needs_time_or_click [of w now _ rnd] by blast
  ultimately show ?thesis by blast
qed

theorem early_finish_is_signal_only_witness:
  "allTracksCompleted (gs (runningWorld\<lparr>gs := (gs runningWorld)\<lparr>tracksCompleted := {|1, 2, 3|}\<rparr>\<rparr>)) \<and>
   earlyFinishThreshold (gs (runningWorld\<lparr>gs := (gs runningWorld)\<lparr>tracksCompleted := {|1, 2, 3|}\<rparr>\<rparr>))
     \<le> elapsed_ms 651000 (gs (runningWorld\<lparr>gs := (gs runningWorld)\<lparr>tracksCompleted := {|1, 2, 3|}\<rparr>\<rparr>)) \<and>
   elapsed_ms 651000 (gs (runningWorld\<lparr>gs := (gs runningWorld)\<lparr>tracksCompleted := {|1, 2, 3|}\<rparr>\<rparr>))
     < sessionDuration (gs (runningWorld\<lparr>gs := (gs runningWorld)\<lparr>tracksCompleted := {|1, 2, 3|}\<rparr>\<rparr>)) \<and>
   completionCode (gs (maybeUnlockCompletion 651000 (\<lambda>_. 0)
      (runningWorld\<lparr>gs := (gs runningWorld)\<lparr>tracksCompleted := {|1, 2, 3|}\<rparr>\<rparr>))) = None \<and>
   finishDisplay (maybeUnlockCompletion 651000 (\<lambda>_. 0)
      (runningWorld\<lparr>gs := (gs runningWorld)\<lparr>tracksCompleted := {|1, 2, 3|}\<rparr>\<rparr>)) = ''block''"
proof -
  let ?w = "runningWorld\<lparr>gs := (gs runningWorld)\<lparr>tracksCompleted := {|1, 2, 3|}\<rparr>\<rparr>"
  have a: "allTracksCompleted (gs ?w)"
    by (simp add: allTracksCompleted_def runningWorld_def readyWorld_def initialWorld_def
          initialGameState_def fcard_finsert_if)
  have b: "earlyFinishThreshold (gs ?w) \<le> elapsed_ms 651000 (gs ?w)"
    by (simp add: elapsed_ms_def runningWorld_def readyWorld_def initialWorld_def
          initialGameState_def)
  have c: "elapsed_ms 651000 (gs ?w) < sessionDuration (gs ?w)"
    by (simp add: elapsed_ms_def runningWorld_def readyWorld_def initialWorld_def
          initialGameState_def)
  have d: "completionCode (gs ?w) = None \<and> finishDisplay ?w = ''none''"
    by (simp add: runningWorld_def readyWorld_def initialWorld_def initialGameState_def)
  from early_finish_is_signal_only [OF a b c, of "\<lambda>_. 0" 0 "\<lambda>_. 0"] d
  have "gs (maybeUnlockCompletion 651000 (\<lambda>_. 0) ?w) = gs ?w"
       "finishDisplay (maybeUnlockCompletion 651000 (\<lambda>_. 0) ?w) = ''block''"
    by blast+
  with a b c d show ?thesis by simp
qed

section \<open>The claims about playback ticks and track sequencing\<close>

lemma maybeUnlockCompletion_fields [simp]:
  "tracksCompleted (gs (maybeUnlockCompletion now rnd w)) = tracksCompleted (gs w)"
  "currentTrack (gs (maybeUnlockCompletion now rnd w)) = currentTrack (gs w)"
  "trackOrder (gs (maybeUnlockCompletion now rnd w)) = trackOrder (gs w)"
  "user (gs (maybeUnlockCompletion now rnd w)) = user (gs w)"
  by (simp_all add: maybeUnlockCompletion_gs)

lemma tick_timeouts:
  "timeouts (handlePlayerStateChanged now rnd (Some t) w) =
     (if currentTrack (gs w) > 0 \<and> duration t > 0 \<and>
         position t \<ge> duration t - 1000 \<and> \<not> paused t
      then timeouts w @ [(100, CbPlayNextTrack)] else timeouts w)"
  using handlePlayerStateChanged_decompose [of now rnd t w] by auto

lemma tick_currentTrack:
  "currentTrack (gs (handlePlayerStateChanged now rnd (Some t) w)) = currentTrack (gs w)"
  using handlePlayerStateChanged_decompose [of now rnd t w]
  by auto

lemma tick_tracksCompleted_zero:
  "duration t \<le> 0 \<Longrightarrow>
   tracksCompleted (gs (handlePlayerStateChanged now rnd (Some t) w)) = tracksCompleted (gs w)"
  using handlePlayerStateChanged_decompose [of now rnd t w]
  by auto

lemma tick_uncaught:
  "user (gs w) \<noteq> None \<Longrightarrow>
   uncaught (handlePlayerStateChanged now rnd (Some t) w) = uncaught w"
proof -
  assume u: "user (gs w) \<noteq> None"
  from handlePlayerStateChanged_decompose [of now rnd t w] obtain w3 where
    h: "handlePlayerStateChanged now rnd (Some t) w = maybeUnlockCompletion now rnd w3"
    and "user (gs w3) = user (gs w)" and c: "uncaught w3 = uncaught w"
    by auto
  with u have "user (gs w3) \<noteq> None" by simp
  then show ?thesis using h c by (simp add: maybeUnlockCompletion_uncaught)
qed

lemma tick_progress:
  "progressPercent (handlePlayerStateChanged now rnd (Some t) w) =
     (if currentTrack (gs w) > 0 \<and> currentTrack (gs w) \<le> 3
      then (progressPercent w)(currentTrack (gs w) \<mapsto>
             js_round ((if duration t > 0 then position t / duration t else 0) * 100))
      else progressPercent w)"
  using handlePlayerStateChanged_decompose [of now rnd t w]
  by (auto simp: updateTrackProgress_def Let_def)

text \<open>
  C9. A tick whose duration is zero or negative is processed without a division: no track
  is marked completed, no advance is scheduled, no exception leaves the handler (given the
  profile of the user is present, which the completion telemetry reads), and the
  percentage shown for the current track (tracks 1 to 3 have a progress bar) is 0.
\<close>

theorem zero_duration_tick_ratio_zero:
  assumes "duration t \<le> 0"
  shows "tracksCompleted (gs (handlePlayerStateChanged now rnd (Some t) w)) =
           tracksCompleted (gs w) \<and>
         timeouts (handlePlayerStateChanged now rnd (Some t) w) = timeouts w \<and>
         (user (gs w) \<noteq> None \<longrightarrow>
            uncaught (handlePlayerStateChanged now rnd (Some t) w) = uncaught w) \<and>
         (0 < currentTrack (gs w) \<and> currentTrack (gs w) \<le> 3 \<longrightarrow>
            progressPercent (handlePlayerStateChanged now rnd (Some t) w)
              (currentTrack (gs w)) = Some 0) \<and>
         (\<not> (0 < currentTrack (gs w) \<and> currentTrack (gs w) \<le> 3) \<longrightarrow>
            progressPercent (handlePlayerStateChanged now rnd (Some t) w) =
              progressPercent w)"
  using assms tick_tracksCompleted_zero [of t now rnd w] tick_uncaught [of w now rnd t]
  by (simp add: tick_timeouts tick_progress js_round_def)

theorem zero_duration_tick_ratio_zero_witness:
  "duration \<lparr>position = 500, duration = 0, paused = False\<rparr> \<le> 0 \<and>
   user (gs runningWorld) \<noteq> None \<and>
   0 < currentTrack (gs runningWorld) \<and> currentTrack (gs runningWorld) \<le> 3 \<and>
   tracksCompleted (gs (handlePlayerStateChanged 5000 (\<lambda>_. 0)
       (Some \<lparr>position = 500, duration = 0, paused = False\<rparr>) runningWorld)) = {||} \<and>
   uncaught (handlePlayerStateChanged 5000 (\<lambda>_. 0)
       (Some \<lparr>position = 500, duration = 0, paused = False\<rparr>) runningWorld) = [] \<and>
   progressPercent (handlePlayerStateChanged 5000 (\<lambda>_. 0)
       (Some \<lparr>position = 500, duration = 0, paused = False\<rparr>) runningWorld) 1 = Some 0"
proof -
  let ?t = "\<lparr>position = 500, duration = 0, paused = False\<rparr>"
  have a: "duration ?t \<le> 0" by simp
  have b: "user (gs runningWorld) \<noteq> None \<and> 0 < currentTrack (gs runningWorld) \<and>
           currentTrack (gs runningWorld) \<le> 3 \<and> currentTrack (gs runningWorld) = 1 \<and>
           tracksCompleted (gs runningWorld) = {||} \<and> uncaught runningWorld = []"
    by (simp add: runningWorld_def readyWorld_def initialWorld_def initialGameState_def)
  from zero_duration_tick_ratio_zero [OF a, of 5000 "\<lambda>_. 0" runningWorld] b
  show ?thesis by simp
qed

text \<open>
  C4 as the specification states it fails: the handler has no record of an advance
  already scheduled. Two ticks in the last second of the first track leave two pending
  \<^verbatim>\<open>playNextTrack\<close> timeouts while the current track is still track 1.
\<close>

theorem second_tick_schedules_second_advance:
  "timeouts (handlePlayerStateChanged 5000 (\<lambda>_. 0)
      (Some \<lparr>position = 199500, duration = 200000, paused = False\<rparr>) runningWorld) =
     [(100, CbPlayNextTrack)] \<and>
   currentTrack (gs (handlePlayerStateChanged 5000 (\<lambda>_. 0)
      (Some \<lparr>position = 199500, duration = 200000, paused = False\<rparr>) runningWorld)) = 1 \<and>
   timeouts (handlePlayerStateChanged 5050 (\<lambda>_. 0)
      (Some \<lparr>position = 199550, duration = 200000, paused = False\<rparr>)
      (handlePlayerStateChanged 5000 (\<lambda>_. 0)
        (Some \<lparr>position = 199500, duration = 200000, paused = False\<rparr>) runningWorld)) =
     [(100, CbPlayNextTrack), (100, CbPlayNextTrack)] \<and>
   currentTrack (gs (handlePlayerStateChanged 5050 (\<lambda>_. 0)
      (Some \<lparr>position = 199550, duration = 200000, paused = False\<rparr>)
      (handlePlayerStateChanged 5000 (\<lambda>_. 0)
        (Some \<lparr>position = 199500, duration = 200000, paused = False\<rparr>) runningWorld))) = 1"
proof -
  have "currentTrack (gs runningWorld) = 1" "timeouts runningWorld = []"
    by (simp_all add: runningWorld_def readyWorld_def initialWorld_def initialGameState_def)
  then show ?thesis by (simp add: tick_timeouts tick_currentTrack)
qed

text \<open>
  C4, amended. Every tick handled while a track is current, with a positive duration,
  a position within the last 1000 ms and the player not paused, schedules one
  \<^verbatim>\<open>playNextTrack\<close> call after 100 ms and leaves the current track as it is, whatever is
  already pending: the scheduling is per tick, not per track.
\<close>

theorem advance_scheduled_on_every_tick:
  assumes "0 < currentTrack (gs w)" "0 < duration t" "duration t - 1000 \<le> position t"
    "\<not> paused t"
  shows "timeouts (handlePlayerStateChanged now rnd (Some t) w) =
           timeouts w @ [(100, CbPlayNextTrack)] \<and>
         currentTrack (gs (handlePlayerStateChanged now rnd (Some t) w)) =
           currentTrack (gs w)"
  using assms by (simp add: tick_timeouts tick_currentTrack)

theorem advance_scheduled_on_every_tick_witness:
  "0 < currentTrack (gs (runningWorld\<lparr>timeouts := [(100, CbPlayNextTrack)]\<rparr>)) \<and>
   0 < duration \<lparr>position = 199550, duration = 200000, paused = False\<rparr> \<and>
   duration \<lparr>position = 199550, duration = 200000, paused = False\<rparr> - 1000
     \<le> position \<lparr>position = 199550, duration = 200000, paused = False\<rparr> \<and>
   \<not> paused \<lparr>position = 199550, duration = 200000, paused = False\<rparr> \<and>
   timeouts (handlePlayerStateChanged 5050 (\<lambda>_. 0)
      (Some \<lparr>position = 199550, duration = 200000, paused = False\<rparr>)
      (runningWorld\<lparr>timeouts := [(100, CbPlayNextTrack)]\<rparr>)) =
     [(100, CbPlayNextTrack), (100, CbPlayNextTrack)]"
proof -
  let ?w = "runningWorld\<lparr>timeouts := [(100, CbPlayNextTrack)]\<rparr>"
  let ?t = "\<lparr>position = 199550, duration = 200000, paused = False\<rparr>"
  have a: "0 < currentTrack (gs ?w)"
    by (simp add: runningWorld_def readyWorld_def initialWorld_def initialGameState_def)
  have b: "0 < duration ?t" "duration ?t - 1000 \<le> position ?t" "\<not> paused ?t" by simp_all
  from advance_scheduled_on_every_tick [OF a b, of 5050 "\<lambda>_. 0"] a b
  show ?thesis by simp
qed

text \<open>
  C3 as the specification states it fails: with the last track current,
  \<^verbatim>\<open>playNextTrack\<close> returns at its first test and the track counter stays at 3.
\<close>

theorem playNextTrack_last_track_no_increment:
  "currentTrack (gs (runningWorld\<lparr>gs := (gs runningWorld)\<lparr>currentTrack := 3\<rparr>\<rparr>)) =
     length (trackOrder (gs (runningWorld\<lparr>gs := (gs runningWorld)\<lparr>currentTrack := 3\<rparr>\<rparr>))) \<and>
   currentTrack (gs (playNextTrack (\<lambda>_. 0)
      (runningWorld\<lparr>gs := (gs runningWorld)\<lparr>currentTrack := 3\<rparr>\<rparr>))) = 3 \<and>
   currentTrack (gs (playNextTrack (\<lambda>_. 0)
      (runningWorld\<lparr>gs := (gs runningWorld)\<lparr>currentTrack := 3\<rparr>\<rparr>))) \<noteq>
     currentTrack (gs (runningWorld\<lparr>gs := (gs runningWorld)\<lparr>currentTrack := 3\<rparr>\<rparr>)) + 1"
  by (simp add: playNextTrack_def runningWorld_def readyWorld_def initialWorld_def
        initialGameState_def)

text \<open>
  C3, amended. Called when the track counter already equals the length of the track
  order, \<^verbatim>\<open>playNextTrack\<close> changes nothing at all: no play request is sent or scheduled,
  no telemetry call is made, no exception is raised, the track counter is not
  incremented, and the session is not completed by the call.
\<close>

theorem playNextTrack_at_end_is_noop:
  assumes "currentTrack (gs w) = length (trackOrder (gs w))"
  shows "playNextTrack rnd w = w"
  using assms by (simp add: playNextTrack_def)

theorem playNextTrack_at_end_is_noop_witness:
  "currentTrack (gs (runningWorld\<lparr>gs := (gs runningWorld)\<lparr>currentTrack := 3\<rparr>\<rparr>)) =
     length (trackOrder (gs (runningWorld\<lparr>gs := (gs runningWorld)\<lparr>currentTrack := 3\<rparr>\<rparr>))) \<and>
   playNextTrack (\<lambda>_. 0) (runningWorld\<lparr>gs := (gs runningWorld)\<lparr>currentTrack := 3\<rparr>\<rparr>) =
     runningWorld\<lparr>gs := (gs runningWorld)\<lparr>currentTrack := 3\<rparr>\<rparr>"
proof -
  let ?w = "runningWorld\<lparr>gs := (gs runningWorld)\<lparr>currentTrack := 3\<rparr>\<rparr>"
  have a: "currentTrack (gs ?w) = length (trackOrder (gs ?w))"
    by (simp add: runningWorld_def readyWorld_def initialWorld_def initialGameState_def)
  from playNextTrack_at_end_is_noop [OF a, of "\<lambda>_. 0"] a show ?thesis by blast
qed

section \<open>Starting a session\<close>

lemma nextTimerId_frame [simp]:
  "nextTimerId (showMessage tx ty w) = nextTimerId w"
  "nextTimerId (updateButton tx b w) = nextTimerId w"
  "nextTimerId (sendTelemetry ev url w) = nextTimerId w"
  "nextTimerId (setTimeout cb d w) = nextTimerId w"
  by (simp_all add: showMessage_def updateButton_def sendTelemetry_def setTimeout_def Let_def)

lemma playCurrentTrack_nextTimerId [simp]:
  "nextTimerId (playCurrentTrack rnd res w) = nextTimerId w"
  by (simp add: playCurrentTrack_def scheduleNoiseInteraction_def Let_def
           split: sum.splits option.splits)

lemma playCurrentTrack_failed_message:
  "currentTrack (gs w) \<le> length (trackOrder (gs w)) \<Longrightarrow>
   messages (playCurrentTrack rnd (Inl e) w) = messages w @ [(''Failed to play track'', ''error'')]"
  by (simp add: playCurrentTrack_def Let_def)

lemma startSession_aborts:
  assumes "user (gs w) = None \<or> (\<exists>e. createPlaylistRes api = Inl e) \<or>
           (\<exists>e. addTracksRes api = Inl e) \<or> (\<exists>e. devicesRes api = Inl e) \<or>
           (\<exists>e. transferRes api = Inl e)"
  shows "\<exists>pl e. gs (startSession now rnd name pub api w) = (gs w)\<lparr>playlist := pl\<rparr> \<and>
           intervals (startSession now rnd name pub api w) = intervals w \<and>
           timeouts (startSession now rnd name pub api w) = timeouts w \<and>
           playCommands (startSession now rnd name pub api w) = playCommands w \<and>
           mainButton (startSession now rnd name pub api w) = (''Start Session'', True) \<and>
           messages (startSession now rnd name pub api w) =
             messages w @ [(''Creating playlist and starting playback...'', ''info''),
                           (''Failed to start: '' @ err_message e, ''error'')]"
proof -
  define w0 where "w0 = showMessage ''Creating playlist and starting playback...'' ''info''
                 (updateButton ''Starting...'' False w)"
  obtain w1 r1 where c: "createPlaylist name pub api w0 = (w1, r1)" by force
  obtain w2 r2 where t: "transferPlayback api w1 = (w2, r2)" by force
  have g0: "gs w0 = gs w" by (simp add: w0_def)
  from createPlaylist_frame [OF c] g0
  have g1: "\<exists>pl. gs w1 = (gs w)\<lparr>playlist := pl\<rparr>"
    by (metis gameState.surjective gameState.update_convs(5))
  from createPlaylist_frame [OF c]
  have f1: "intervals w1 = intervals w" "timeouts w1 = timeouts w"
    "playCommands w1 = playCommands w"
    "messages w1 = messages w @ [(''Creating playlist and starting playback...'', ''info'')]"
    by (simp_all add: w0_def)
  from transferPlayback_frame [OF t] have w2: "w2 = w1" .
  have n1: "r1 = None \<Longrightarrow> user (gs w) \<noteq> None \<and> (\<exists>p. createPlaylistRes api = Inr p) \<and>
              (\<exists>u. addTracksRes api = Inr u)"
    using c g0 by (auto simp: createPlaylist_def Let_def split: option.splits sum.splits)
  have n2: "r2 = None \<Longrightarrow> (\<exists>ds. devicesRes api = Inr ds) \<and> (\<exists>u. transferRes api = Inr u)"
    using t by (auto simp: transferPlayback_def split: sum.splits if_splits)
  from assms n1 n2 have "r1 \<noteq> None \<or> r2 \<noteq> None" by auto
  then consider e where "r1 = Some e" | e where "r1 = None" "r2 = Some e" by auto
  then show ?thesis
  proof cases
    case 1
    then have "startSession now rnd name pub api w = start_failed e w1"
      using c by (simp add: startSession_def Let_def w0_def [symmetric])
    with g1 f1 show ?thesis by auto
  next
    case 2
    then have "startSession now rnd name pub api w = start_failed e w1"
      using c t w2 by (simp add: startSession_def Let_def w0_def [symmetric])
    with g1 f1 show ?thesis by auto
  qed
qed

lemma startSession_starts:
  assumes "user (gs w) = Some uid" "createPlaylistRes api = Inr pid"
    "addTracksRes api = Inr ua" "devicesRes api = Inr ds" "deviceId (gs w) = Some d"
    "d \<in> set ds" "transferRes api = Inr ub"
  shows "gs (startSession now rnd name pub api w) =
           (gs w)\<lparr>playlist := Some pid, currentTrack := 1, startedAt := Some now,
                   sessionTimer := Some (nextTimerId w),
                   unlockTimer := Some (Suc (nextTimerId w))\<rparr>"
    and "intervals (startSession now rnd name pub api w) =
           intervals w @ [nextTimerId w, Suc (nextTimerId w)]"
    and "mainButton (startSession now rnd name pub api w) = (''Playing...'', False)"
    and "playRes api = Inl e \<Longrightarrow> trackOrder (gs w) \<noteq> [] \<Longrightarrow>
           (''Failed to play track'', ''error'') \<in>
             set (messages (startSession now rnd name pub api w))"
proof -
  define w0 where "w0 = showMessage ''Creating playlist and starting playback...'' ''info''
                 (updateButton ''Starting...'' False w)"
  define w1 where "w1 = sendTelemetry
      (PlaylistCreated uid pid (countryHint (gs w)) (trackOrder (gs w)) name pub) None
      (w0\<lparr>gs := (gs w0)\<lparr>playlist := Some pid\<rparr>\<rparr>)"
  have c: "createPlaylist name pub api w0 = (w1, None)"
    using assms(1-3) by (simp add: createPlaylist_def Let_def w1_def w0_def)
  have d: "deviceId (gs w1) = Some d" using assms(5) by (simp add: w1_def w0_def)
  have t: "transferPlayback api w1 = (w1, None)"
    using assms(4,6,7) d by (auto simp: transferPlayback_def)
  have g1: "gs w1 = (gs w)\<lparr>playlist := Some pid\<rparr>" "nextTimerId w1 = nextTimerId w"
    "intervals w1 = intervals w"
    by (simp_all add: w1_def w0_def)
  show "gs (startSession now rnd name pub api w) =
           (gs w)\<lparr>playlist := Some pid, currentTrack := 1, startedAt := Some now,
                   sessionTimer := Some (nextTimerId w),
                   unlockTimer := Some (Suc (nextTimerId w))\<rparr>"
    using c t by (simp add: startSession_def Let_def w0_def [symmetric] setInterval_def g1)
  show "intervals (startSession now rnd name pub api w) =
           intervals w @ [nextTimerId w, Suc (nextTimerId w)]"
    using c t by (simp add: startSession_def Let_def w0_def [symmetric] setInterval_def g1)
  show "mainButton (startSession now rnd name pub api w) = (''Playing...'', False)"
    using c t by (simp add: startSession_def Let_def w0_def [symmetric] setInterval_def)
  show "(''Failed to play track'', ''error'') \<in>
             set (messages (startSession now rnd name pub api w))"
    if "playRes api = Inl e" "trackOrder (gs w) \<noteq> []"
  proof -
    have l: "Suc 0 \<le> length (trackOrder (gs w))" using that(2) by (simp add: Suc_leI)
    show ?thesis
      using c t that(1) l
      by (simp add: startSession_def Let_def w0_def [symmetric] setInterval_def g1
            playCurrentTrack_failed_message)
  qed
qed

lemma startSession_params:
  "sessionDuration (gs (startSession now rnd name pub api w)) = sessionDuration (gs w) \<and>
   minTrackRatio (gs (startSession now rnd name pub api w)) = minTrackRatio (gs w) \<and>
   earlyFinishThreshold (gs (startSession now rnd name pub api w)) =
     earlyFinishThreshold (gs w) \<and>
   trackOrder (gs (startSession now rnd name pub api w)) = trackOrder (gs w) \<and>
   showSaveButton (gs (startSession now rnd name pub api w)) = showSaveButton (gs w)"
  using startSession_gs [of now rnd name pub api w] by auto

lemma startSession_keeps_playlist:
  assumes "user (gs w) = Some uid" "createPlaylistRes api = Inr pid"
  shows "playlist (gs (startSession now rnd name pub api w)) = Some pid"
proof -
  define w0 where "w0 = showMessage ''Creating playlist and starting playback...'' ''info''
                 (updateButton ''Starting...'' False w)"
  obtain w1 r1 where c: "createPlaylist name pub api w0 = (w1, r1)" by force
  obtain w2 r2 where t: "transferPlayback api w1 = (w2, r2)" by force
  have p1: "playlist (gs w1) = Some pid"
    using c assms
    by (auto simp: createPlaylist_def Let_def w0_def split: option.splits sum.splits)
  from transferPlayback_frame [OF t] have w2: "w2 = w1" .
  show ?thesis
    using c t w2 p1
    by (simp add: startSession_def Let_def w0_def [symmetric] setInterval_def
             split: option.splits)
qed

text \<open>
  C6 as the specification states it fails: when the requests up to the transfer succeed
  and the play request fails, \<^verbatim>\<open>playCurrentTrack\<close> catches the failure, and the session is
  started: the start time is set and the first track is current.
\<close>

theorem play_failure_still_starts_session:
  "playRes \<lparr>createPlaylistRes = Inr ''pl1'', addTracksRes = Inr (),
            devicesRes = Inr [''dev1''], transferRes = Inr (),
            playRes = Inl (Error ''HTTP 502'')\<rparr> = Inl (Error ''HTTP 502'') \<and>
   startedAt (gs readyWorld) = None \<and> currentTrack (gs readyWorld) = 0 \<and>
   startedAt (gs (startSession 1000 (\<lambda>_. 0) ''Neon Beats Mix'' False
      \<lparr>createPlaylistRes = Inr ''pl1'', addTracksRes = Inr (),
       devicesRes = Inr [''dev1''], transferRes = Inr (),
       playRes = Inl (Error ''HTTP 502'')\<rparr> readyWorld)) = Some 1000 \<and>
   currentTrack (gs (startSession 1000 (\<lambda>_. 0) ''Neon Beats Mix'' False
      \<lparr>createPlaylistRes = Inr ''pl1'', addTracksRes = Inr (),
       devicesRes = Inr [''dev1''], transferRes = Inr (),
       playRes = Inl (Error ''HTTP 502'')\<rparr> readyWorld)) = 1 \<and>
   playlist (gs (startSession 1000 (\<lambda>_. 0) ''Neon Beats Mix'' False
      \<lparr>createPlaylistRes = Inr ''pl1'', addTracksRes = Inr (),
       devicesRes = Inr [''dev1''], transferRes = Inr (),
       playRes = Inl (Error ''HTTP 502'')\<rparr> readyWorld)) = Some ''pl1''"
proof -
  let ?api = "\<lparr>createPlaylistRes = Inr ''pl1'', addTracksRes = Inr (),
       devicesRes = Inr [''dev1''], transferRes = Inr (),
       playRes = Inl (Error ''HTTP 502'')\<rparr>"
  have r: "user (gs readyWorld) = Some ''u1''" "deviceId (gs readyWorld) = Some ''dev1''"
    "startedAt (gs readyWorld) = None" "currentTrack (gs readyWorld) = 0"
    by (simp_all add: readyWorld_def initialWorld_def initialGameState_def)
  have "gs (startSession 1000 (\<lambda>_. 0) ''Neon Beats Mix'' False ?api readyWorld) =
          (gs readyWorld)\<lparr>playlist := Some ''pl1'', currentTrack := 1, startedAt := Some 1000,
                   sessionTimer := Some (nextTimerId readyWorld),
                   unlockTimer := Some (Suc (nextTimerId readyWorld))\<rparr>"
    by (rule startSession_starts(1) [where uid = "''u1''" and ds = "[''dev1'']"
          and d = "''dev1''" and ua = "()" and ub = "()"]) (simp_all add: r)
  with r show ?thesis by simp
qed

text \<open>
  C6, amended. \<^verbatim>\<open>startSession\<close> never changes the session parameters: a retry reuses
  the parameters drawn at initialisation. If the profile is missing or one of the requests
  before the play request fails (create playlist, add tracks, list devices, transfer
  playback), the failure is shown as an error message, the button is reset to
  \<^verbatim>\<open>Start Session\<close>, and the start time, the track counter, the timer handles, the running
  timers, the timeouts and the play requests are as before. A playlist that was created
  before the failure stays referenced. If those requests succeed and the play request
  fails, the failure is caught inside \<^verbatim>\<open>playCurrentTrack\<close> and shown as a message, and the
  session is started all the same: first track current, start time set, both timers armed.
\<close>

theorem startSession_failure_semantics:
  "sessionDuration (gs (startSession now rnd name pub api w)) = sessionDuration (gs w) \<and>
   minTrackRatio (gs (startSession now rnd name pub api w)) = minTrackRatio (gs w) \<and>
   earlyFinishThreshold (gs (startSession now rnd name pub api w)) =
     earlyFinishThreshold (gs w) \<and>
   trackOrder (gs (startSession now rnd name pub api w)) = trackOrder (gs w) \<and>
   showSaveButton (gs (startSession now rnd name pub api w)) = showSaveButton (gs w) \<and>
   (user (gs w) = None \<or> (\<exists>e. createPlaylistRes api = Inl e) \<or>
    (\<exists>e. addTracksRes api = Inl e) \<or> (\<exists>e. devicesRes api = Inl e) \<or>
    (\<exists>e. transferRes api = Inl e) \<longrightarrow>
      startedAt (gs (startSession now rnd name pub api w)) = startedAt (gs w) \<and>
      currentTrack (gs (startSession now rnd name pub api w)) = currentTrack (gs w) \<and>
      sessionTimer (gs (startSession now rnd name pub api w)) = sessionTimer (gs w) \<and>
      unlockTimer (gs (startSession now rnd name pub api w)) = unlockTimer (gs w) \<and>
      intervals (startSession now rnd name pub api w) = intervals w \<and>
      timeouts (startSession now rnd name pub api w) = timeouts w \<and>
      playCommands (startSession now rnd name pub api w) = playCommands w \<and>
      mainButton (startSession now rnd name pub api w) = (''Start Session'', True) \<and>
      (\<exists>e. messages (startSession now rnd name pub api w) =
             messages w @ [(''Creating playlist and starting playback...'', ''info''),
                           (''Failed to start: '' @ err_message e, ''error'')])) \<and>
   (user (gs w) \<noteq> None \<and> createPlaylistRes api = Inr pid \<longrightarrow>
      playlist (gs (startSession now rnd name pub api w)) = Some pid) \<and>
   (user (gs w) \<noteq> None \<and> createPlaylistRes api = Inr pid \<and> addTracksRes api = Inr () \<and>
    devicesRes api = Inr ds \<and> deviceId (gs w) = Some d \<and> d \<in> set ds \<and>
    transferRes api = Inr () \<and> playRes api = Inl e \<and> trackOrder (gs w) \<noteq> [] \<longrightarrow>
      currentTrack (gs (startSession now rnd name pub api w)) = 1 \<and>
      startedAt (gs (startSession now rnd name pub api w)) = Some now \<and>
      sessionTimer (gs (startSession now rnd name pub api w)) = Some (nextTimerId w) \<and>
      unlockTimer (gs (startSession now rnd name pub api w)) = Some (Suc (nextTimerId w)) \<and>
      intervals (startSession now rnd name pub api w) =
        intervals w @ [nextTimerId w, Suc (nextTimerId w)] \<and>
      (''Failed to play track'', ''error'') \<in>
        set (messages (startSession now rnd name pub api w)))"
proof (intro conjI impI)
  note p = startSession_params [of now rnd name pub api w]
  show "sessionDuration (gs (startSession now rnd name pub api w)) = sessionDuration (gs w)"
    and "minTrackRatio (gs (startSession now rnd name pub api w)) = minTrackRatio (gs w)"
    and "earlyFinishThreshold (gs (startSession now rnd name pub api w)) =
           earlyFinishThreshold (gs w)"
    and "trackOrder (gs (startSession now rnd name pub api w)) = trackOrder (gs w)"
    and "showSaveButton (gs (startSession now rnd name pub api w)) = showSaveButton (gs w)"
    using p by blast+
next
  assume a: "user (gs w) = None \<or> (\<exists>e. createPlaylistRes api = Inl e) \<or>
    (\<exists>e. addTracksRes api = Inl e) \<or> (\<exists>e. devicesRes api = Inl e) \<or>
    (\<exists>e. transferRes api = Inl e)"
  from startSession_aborts [OF a, of now rnd name pub] obtain pl e where
    g: "gs (startSession now rnd name pub api w) = (gs w)\<lparr>playlist := pl\<rparr>"
    and r: "intervals (startSession now rnd name pub api w) = intervals w"
      "timeouts (startSession now rnd name pub api w) = timeouts w"
      "playCommands (startSession now rnd name pub api w) = playCommands w"
      "mainButton (startSession now rnd name pub api w) = (''Start Session'', True)"
    and m: "messages (startSession now rnd name pub api w) =
             messages w @ [(''Creating playlist and starting playback...'', ''info''),
                           (''Failed to start: '' @ err_message e, ''error'')]"
    by blast
  show "startedAt (gs (startSession now rnd name pub api w)) = startedAt (gs w)"
    and "currentTrack (gs (startSession now rnd name pub api w)) = currentTrack (gs w)"
    and "sessionTimer (gs (startSession now rnd name pub api w)) = sessionTimer (gs w)"
    and "unlockTimer (gs (startSession now rnd name pub api w)) = unlockTimer (gs w)"
    by (simp_all add: g)
  show "intervals (startSession now rnd name pub api w) = intervals w"
    and "timeouts (startSession now rnd name pub api w) = timeouts w"
    and "playCommands (startSession now rnd name pub api w) = playCommands w"
    and "mainButton (startSession now rnd name pub api w) = (''Start Session'', True)"
    using r by blast+
  show "\<exists>e. messages (startSession now rnd name pub api w) =
             messages w @ [(''Creating playlist and starting playback...'', ''info''),
                           (''Failed to start: '' @ err_message e, ''error'')]"
    using m by blast
next
  assume "user (gs w) \<noteq> None \<and> createPlaylistRes api = Inr pid"
  then show "playlist (gs (startSession now rnd name pub api w)) = Some pid"
    using startSession_keeps_playlist [of w _ api pid now rnd name pub] by auto
next
  assume a: "user (gs w) \<noteq> None \<and> createPlaylistRes api = Inr pid \<and>
    addTracksRes api = Inr () \<and> devicesRes api = Inr ds \<and> deviceId (gs w) = Some d \<and>
    d \<in> set ds \<and> transferRes api = Inr () \<and> playRes api = Inl e \<and> trackOrder (gs w) \<noteq> []"
  then obtain uid where u: "user (gs w) = Some uid" by auto
  note s = startSession_starts [where w = w and uid = uid and api = api and pid = pid
      and ua = "()" and ds = ds and d = d and ub = "()" and now = now and rnd = rnd
      and name = name and pub = pub]
  show "currentTrack (gs (startSession now rnd name pub api w)) = 1"
    and "startedAt (gs (startSession now rnd name pub api w)) = Some now"
    and "sessionTimer (gs (startSession now rnd name pub api w)) = Some (nextTimerId w)"
    and "unlockTimer (gs (startSession now rnd name pub api w)) = Some (Suc (nextTimerId w))"
    using a u s(1) by simp_all
  show "intervals (startSession now rnd name pub api w) =
        intervals w @ [nextTimerId w, Suc (nextTimerId w)]"
    using a u s(2) by simp
  show "(''Failed to play track'', ''error'') \<in>
        set (messages (startSession now rnd name pub api w))"
    using a u s(4) [of e] by simp
qed

theorem startSession_failure_semantics_witness:
  "user (gs readyWorld) \<noteq> None \<and>
   createPlaylistRes \<lparr>createPlaylistRes = Inr ''pl1'', addTracksRes = Inl (Error ''HTTP 500''),
       devicesRes = Inr [''dev1''], transferRes = Inr (), playRes = Inr ()\<rparr> = Inr ''pl1'' \<and>
   addTracksRes \<lparr>createPlaylistRes = Inr ''pl1'', addTracksRes = Inl (Error ''HTTP 500''),
       devicesRes = Inr [''dev1''], transferRes = Inr (), playRes = Inr ()\<rparr> = Inl (Error ''HTTP 500'') \<and>
   startedAt (gs (startSession 1000 (\<lambda>_. 0) ''Neon Beats Mix'' False
      \<lparr>createPlaylistRes = Inr ''pl1'', addTracksRes = Inl (Error ''HTTP 500''),
       devicesRes = Inr [''dev1''], transferRes = Inr (), playRes = Inr ()\<rparr> readyWorld)) = None \<and>
   currentTrack (gs (startSession 1000 (\<lambda>_. 0) ''Neon Beats Mix'' False
      \<lparr>createPlaylistRes = Inr ''pl1'', addTracksRes = Inl (Error ''HTTP 500''),
       devicesRes = Inr [''dev1''], transferRes = Inr (), playRes = Inr ()\<rparr> readyWorld)) = 0 \<and>
   intervals (startSession 1000 (\<lambda>_. 0) ''Neon Beats Mix'' False
      \<lparr>createPlaylistRes = Inr ''pl1'', addTracksRes = Inl (Error ''HTTP 500''),
       devicesRes = Inr [''dev1''], transferRes = Inr (), playRes = Inr ()\<rparr> readyWorld) = [] \<and>
   playlist (gs (startSession 1000 (\<lambda>_. 0) ''Neon Beats Mix'' False
      \<lparr>createPlaylistRes = Inr ''pl1'', addTracksRes = Inl (Error ''HTTP 500''),
       devicesRes = Inr [''dev1''], transferRes = Inr (), playRes = Inr ()\<rparr> readyWorld)) = Some ''pl1'' \<and>
   mainButton (startSession 1000 (\<lambda>_. 0) ''Neon Beats Mix'' False
      \<lparr>createPlaylistRes = Inr ''pl1'', addTracksRes = Inl (Error ''HTTP 500''),
       devicesRes = Inr [''dev1''], transferRes = Inr (), playRes = Inr ()\<rparr> readyWorld) = (''Start Session'', True) \<and>
   sessionDuration (gs (startSession 1000 (\<lambda>_. 0) ''Neon Beats Mix'' False
      \<lparr>createPlaylistRes = Inr ''pl1'', addTracksRes = Inl (Error ''HTTP 500''),
       devicesRes = Inr [''dev1''], transferRes = Inr (), playRes = Inr ()\<rparr> readyWorld)) = 700000"
proof -
  let ?api = "\<lparr>createPlaylistRes = Inr ''pl1'', addTracksRes = Inl (Error ''HTTP 500''),
       devicesRes = Inr [''dev1''], transferRes = Inr (), playRes = Inr ()\<rparr>"
  have r: "user (gs readyWorld) \<noteq> None" "startedAt (gs readyWorld) = None"
    "currentTrack (gs readyWorld) = 0" "intervals readyWorld = []"
    "sessionDuration (gs readyWorld) = 700000"
    by (simp_all add: readyWorld_def initialWorld_def initialGameState_def)
  have a: "createPlaylistRes ?api = Inr ''pl1''"
          "addTracksRes ?api = Inl (Error ''HTTP 500'')" by simp_all
  then have b: "user (gs readyWorld) = None \<or> (\<exists>e. createPlaylistRes ?api = Inl e) \<or>
    (\<exists>e. addTracksRes ?api = Inl e) \<or> (\<exists>e. devicesRes ?api = Inl e) \<or>
    (\<exists>e. transferRes ?api = Inl e)" by blast
  from startSession_failure_semantics
         [of 1000 "\<lambda>_. 0" "''Neon Beats Mix''" False ?api readyWorld "''pl1''"] b r(1) a(1)
  have "sessionDuration (gs (startSession 1000 (\<lambda>_. 0) ''Neon Beats Mix'' False
      \<lparr>createPlaylistRes = Inr ''pl1'', addTracksRes = Inl (Error ''HTTP 500''),
       devicesRes = Inr [''dev1''], transferRes = Inr (), playRes = Inr ()\<rparr> readyWorld)) = sessionDuration (gs readyWorld)"
    "startedAt (gs (startSession 1000 (\<lambda>_. 0) ''Neon Beats Mix'' False
      \<lparr>createPlaylistRes = Inr ''pl1'', addTracksRes = Inl (Error ''HTTP 500''),
       devicesRes = Inr [''dev1''], transferRes = Inr (), playRes = Inr ()\<rparr> readyWorld)) = startedAt (gs readyWorld)"
    "currentTrack (gs (startSession 1000 (\<lambda>_. 0) ''Neon Beats Mix'' False
      \<lparr>createPlaylistRes = Inr ''pl1'', addTracksRes = Inl (Error ''HTTP 500''),
       devicesRes = Inr [''dev1''], transferRes = Inr (), playRes = Inr ()\<rparr> readyWorld)) = currentTrack (gs readyWorld)"
    "intervals (startSession 1000 (\<lambda>_. 0) ''Neon Beats Mix'' False
      \<lparr>createPlaylistRes = Inr ''pl1'', addTracksRes = Inl (Error ''HTTP 500''),
       devicesRes = Inr [''dev1''], transferRes = Inr (), playRes = Inr ()\<rparr> readyWorld) = intervals readyWorld"
    "mainButton (startSession 1000 (\<lambda>_. 0) ''Neon Beats Mix'' False
      \<lparr>createPlaylistRes = Inr ''pl1'', addTracksRes = Inl (Error ''HTTP 500''),
       devicesRes = Inr [''dev1''], transferRes = Inr (), playRes = Inr ()\<rparr> readyWorld) = (''Start Session'', True)"
    "playlist (gs (startSession 1000 (\<lambda>_. 0) ''Neon Beats Mix'' False
      \<lparr>createPlaylistRes = Inr ''pl1'', addTracksRes = Inl (Error ''HTTP 500''),
       devicesRes = Inr [''dev1''], transferRes = Inr (), playRes = Inr ()\<rparr> readyWorld)) = Some ''pl1''"
    by blast+
  with r a show ?thesis by simp
qed

section \<open>The example worlds are states of the program\<close>

text \<open>
  The parameters of \<open>readyWorld\<close> are what \<^verbatim>\<open>generateSessionParameters\<close> produces for the
  draws 2/9, 4/7, 1/2, 0, 1/2, 0, 0, and the game state of \<open>runningWorld\<close> is what a
  successful start at time 1000 makes of it.
\<close>

lemma readyWorld_parameters:
  "generateSessionParameters
     (\<lambda>i. if i = 0 then 2 / 9 else if i = 1 then 4 / 7 else if i = 2 then 1 / 2
          else if i = 4 then 1 / 2 else 0)
     (initialGameState\<lparr>user := Some ''u1'', deviceId := Some ''dev1''\<rparr>) =
   Inr (gs readyWorld)"
proof -
  have c: "randomChoice FILLER_POOL 0 = Some ''spotify:track:2FDTHlrBguDzQkp7PVj16Q''"
    by (simp add: randomChoice_def at_index_def FILLER_POOL_def)
  have m: "''spotify:track:2FDTHlrBguDzQkp7PVj16Q'' \<in> set FILLER_POOL"
    by (simp add: FILLER_POOL_def)
  show ?thesis
    using c m
    by (simp add: generateSessionParameters_def Let_def
          generateTrackOrder_cases [where f = "''spotify:track:2FDTHlrBguDzQkp7PVj16Q''"]
          randomBetween_def baseMin_def baseMax_def earlyMin_def earlyMax_def
          lowBandProb_def midBandProb_def SHOW_SAVE_PROMPT_PROB_def defaultProb_def
          readyWorld_def initialWorld_def initialGameState_def)
qed

lemma runningWorld_started:
  "gs (step 1000 rnd
         (StartClicked name pub
            \<lparr>createPlaylistRes = Inr ''pl1'', addTracksRes = Inr (),
             devicesRes = Inr [''dev1''], transferRes = Inr (), playRes = Inr ()\<rparr>)
         readyWorld) = gs runningWorld \<and>
   intervals (step 1000 rnd
         (StartClicked name pub
            \<lparr>createPlaylistRes = Inr ''pl1'', addTracksRes = Inr (),
             devicesRes = Inr [''dev1''], transferRes = Inr (), playRes = Inr ()\<rparr>)
         readyWorld) = intervals runningWorld"
proof -
  let ?api = "\<lparr>createPlaylistRes = Inr ''pl1'', addTracksRes = Inr (),
             devicesRes = Inr [''dev1''], transferRes = Inr (), playRes = Inr ()\<rparr>"
  have r: "user (gs readyWorld) = Some ''u1''" "deviceId (gs readyWorld) = Some ''dev1''"
    "fst (mainButton readyWorld) = ''Start Session''" "nextTimerId readyWorld = 1"
    "intervals readyWorld = []"
    by (simp_all add: readyWorld_def initialWorld_def initialGameState_def)
  note s = startSession_starts [where w = readyWorld and uid = "''u1''" and api = ?api
      and pid = "''pl1''" and ua = "()" and ds = "[''dev1'']" and d = "''dev1''"
      and ub = "()" and now = 1000 and rnd = rnd and name = name and pub = pub]
  have "gs (startSession 1000 rnd name pub ?api readyWorld) = gs runningWorld"
    using s(1) r by (simp add: runningWorld_def)
  moreover have "intervals (startSession 1000 rnd name pub ?api readyWorld) =
      intervals runningWorld"
    using s(2) r by (simp add: runningWorld_def)
  ultimately show ?thesis using r(3) by simp
qed

end
